theory Spec2Isabelle
  imports Complex_Main "HOL-Library.AList"
begin

section \<open>Data model (frontend/src/types/chat.ts)\<close>

text \<open>
  A JavaScript string is modelled as a \<^typ>\<open>string\<close>: one \<^typ>\<open>char\<close> per code unit,
  for the code units U+0000 to U+00FF. A \<open>Date\<close> is its time value: \<open>Some t\<close> for
  \<open>t\<close> milliseconds since the epoch, \<open>None\<close> for the time value NaN (an Invalid Date).
  A \<open>Source\<close> is any JSON value and stays a type parameter.
\<close>

type_synonym date = "int option"

datatype role = User | Assistant

text \<open>
  \<open>Message\<close>. The type of the timestamp is a parameter: a \<open>Date\<close> in memory, the
  ISO string inside the local storage.
\<close>

record ('t, 'src) message =
  msg_id :: string
  msg_role :: role
  msg_content :: string
  msg_timestamp :: 't
  msg_sources :: "'src list option"
  msg_confidence :: "real option"
  msg_iterations :: "real option"

text \<open>The record \<open>saveChatHistory\<close> stores for one session.\<close>

record 'src chat_record =
  chat_id :: string
  chat_title :: string
  chat_timestamp :: string
  chat_messages :: "(string, 'src) message list"
  chat_lastMessage :: string

text \<open>\<open>ChatHistory\<close>, an entry of the sidebar list.\<close>

record chat_history =
  hist_id :: string
  hist_title :: string
  hist_timestamp :: string
  hist_lastMessage :: string

text \<open>
  The item \<open>rag_chatbot_history\<close> of \<open>localStorage\<close>: absent, or the JSON text of an
  object from session ids to records. The text is modelled by the object it denotes
  (\<open>JSON.parse\<close> after \<open>JSON.stringify\<close> gives the same strings, arrays and objects
  back), the object by the list of its entries in the order of \<open>Object.values\<close>: the
  order in which the keys were first assigned (the ids that \<open>generateSessionId\<close> makes
  start with \<open>session_\<close>, so none of them is an integer index, which JavaScript would
  list first). Storage is taken to have room: \<open>setItem\<close> does not throw.

  The entries are the own properties of the object. \<open>JSON.parse\<close> makes an ordinary
  object, whose prototype is \<open>Object.prototype\<close>: reading \<open>allHistory[key]\<close> for a key
  that is no own property finds a member of the prototype when the key is one of its
  names (a function, or for \<open>__proto__\<close> the prototype itself, all of them truthy);
  \<open>delete\<close>, \<open>Object.values\<close> and \<open>JSON.stringify\<close> see own properties only.
\<close>

type_synonym 'src all_history = "(string \<times> 'src chat_record) list"
type_synonym 'src chat_store = "'src all_history option"

datatype js_error = RangeError | TypeError

section \<open>Numbers as decimal strings\<close>

definition digit :: "int \<Rightarrow> char" where
  "digit n = ''0123456789'' ! nat (n mod 10)"

function digits :: "int \<Rightarrow> string" where
  "digits n = (if n < 10 then [digit n] else digits (n div 10) @ [digit n])"
  by pat_completeness auto
termination
  by (relation "measure nat") auto

declare digits.simps [simp del]

text \<open>\<open>Number.prototype.toString\<close> on an integer.\<close>

definition toString :: "int \<Rightarrow> string" where
  "toString i = (if i < 0 then CHR ''-'' # digits (- i) else digits i)"

section \<open>StorageService (frontend/src/services/api.ts)\<close>

text \<open>
  The platform's \<open>Date.prototype.toISOString\<close> and \<open>new Date(string).getTime()\<close> are
  parameters of the model, \<open>toISOString\<close> and \<open>dateParse\<close>; \<open>toISOString\<close> is given
  valid time values only, since on an Invalid Date the platform throws a RangeError. The
  current instant \<open>new Date()\<close> is the parameter \<open>now\<close>.
\<close>

definition getAllChatHistory :: "'src chat_store \<Rightarrow> 'src all_history" where
  "getAllChatHistory stored = (case stored of None \<Rightarrow> [] | Some h \<Rightarrow> h)"

text \<open>The names of the members of \<open>Object.prototype\<close>.\<close>

definition objectPrototypeNames :: "string list" where
  "objectPrototypeNames =
     [''constructor'', ''__defineGetter__'', ''__defineSetter__'', ''hasOwnProperty'',
      ''__lookupGetter__'', ''__lookupSetter__'', ''isPrototypeOf'', ''propertyIsEnumerable'',
      ''toString'', ''valueOf'', ''__proto__'', ''toLocaleString'']"

text \<open>
  \<open>allHistory[key]\<close>, read: the own property, else the member of the prototype, else
  \<open>undefined\<close>.
\<close>

datatype 'src property_value = Own "'src chat_record" | Inherited | Undefined

definition getProperty :: "'src all_history \<Rightarrow> string \<Rightarrow> 'src property_value" where
  "getProperty allHistory key =
     (case map_of allHistory key of
        Some v \<Rightarrow> Own v
      | None \<Rightarrow> if key \<in> set objectPrototypeNames then Inherited else Undefined)"

text \<open>
  \<open>allHistory[key] = v\<close>: an own property gets the value; a key that is no own property
  becomes one, the last in the order of the keys, except \<open>__proto__\<close>, where the
  assignment runs the setter of \<open>Object.prototype\<close> (it changes the prototype of the
  object in memory and adds no own property). The other members of the prototype are
  writable data properties, which an assignment shadows with an own property.
\<close>

definition setProperty :: "string \<Rightarrow> 'src chat_record \<Rightarrow> 'src all_history \<Rightarrow> 'src all_history" where
  "setProperty key v allHistory =
     (if key = ''__proto__'' \<and> map_of allHistory key = None then allHistory
      else AList.update key v allHistory)"

text \<open>\<open>{ ...m, timestamp: m.timestamp.toISOString() }\<close>; no result where the call throws.\<close>

definition serializeMessage ::
  "(int \<Rightarrow> string) \<Rightarrow> (date, 'src) message \<Rightarrow> (string, 'src) message option" where
  "serializeMessage toISOString m =
     (case msg_timestamp m of
        None \<Rightarrow> None
      | Some t \<Rightarrow> Some \<lparr>msg_id = msg_id m, msg_role = msg_role m, msg_content = msg_content m,
                        msg_timestamp = toISOString t, msg_sources = msg_sources m,
                        msg_confidence = msg_confidence m, msg_iterations = msg_iterations m\<rparr>)"

fun serializeMessages ::
  "(int \<Rightarrow> string) \<Rightarrow> (date, 'src) message list \<Rightarrow> (string, 'src) message list option" where
  "serializeMessages toISOString [] = Some []"
| "serializeMessages toISOString (m # ms) =
     (case serializeMessage toISOString m of
        None \<Rightarrow> None
      | Some sm \<Rightarrow> (case serializeMessages toISOString ms of
                     None \<Rightarrow> None
                   | Some sms \<Rightarrow> Some (sm # sms)))"

text \<open>The title: the first user message, cut to 50 characters.\<close>

definition deriveTitle :: "('t, 'src) message list \<Rightarrow> string" where
  "deriveTitle msgs =
     (case find (\<lambda>m. msg_role m = User) msgs of
        Some firstUserMessage \<Rightarrow>
          take 50 (msg_content firstUserMessage)
            @ (if length (msg_content firstUserMessage) > 50 then ''...'' else '''')
      | None \<Rightarrow> ''New Chat'')"

definition saveChatHistory ::
  "(int \<Rightarrow> string) \<Rightarrow> int \<Rightarrow> string \<Rightarrow> (date, 'src) message list \<Rightarrow> 'src chat_store
     \<Rightarrow> js_error + 'src chat_store" where
  "saveChatHistory toISOString now sessionId msgs stored =
     (let allHistory = getAllChatHistory stored in
      if length msgs = 0 then Inr (Some (AList.delete sessionId allHistory))
      else
        (case serializeMessages toISOString msgs of
           None \<Rightarrow> Inl RangeError
         | Some smsgs \<Rightarrow>
             Inr (Some (setProperty sessionId
                    \<lparr>chat_id = sessionId, chat_title = deriveTitle msgs,
                     chat_timestamp = toISOString now, chat_messages = smsgs,
                     chat_lastMessage = msg_content (last msgs)\<rparr>
                    allHistory))))"

text \<open>\<open>{ ...m, timestamp: new Date(m.timestamp) }\<close>\<close>

definition parseMessage ::
  "(string \<Rightarrow> int option) \<Rightarrow> (string, 'src) message \<Rightarrow> (date, 'src) message" where
  "parseMessage dateParse m =
     \<lparr>msg_id = msg_id m, msg_role = msg_role m, msg_content = msg_content m,
      msg_timestamp = dateParse (msg_timestamp m), msg_sources = msg_sources m,
      msg_confidence = msg_confidence m, msg_iterations = msg_iterations m\<rparr>"

text \<open>
  \<open>loadSession\<close>: \<open>null\<close> (\<open>None\<close>) when the id reads as \<open>undefined\<close>; the messages of an
  own record; and a TypeError when the id reads as a member of the prototype, which is
  truthy and has no \<open>messages\<close>, so that \<open>session.messages.map\<close> throws.
\<close>

definition loadSession ::
  "(string \<Rightarrow> int option) \<Rightarrow> string \<Rightarrow> 'src chat_store
     \<Rightarrow> js_error + (date, 'src) message list option" where
  "loadSession dateParse sessionId stored =
     (case getProperty (getAllChatHistory stored) sessionId of
        Undefined \<Rightarrow> Inr None
      | Inherited \<Rightarrow> Inl TypeError
      | Own session \<Rightarrow> Inr (Some (map (parseMessage dateParse) (chat_messages session))))"

definition deleteSession :: "string \<Rightarrow> 'src chat_store \<Rightarrow> 'src chat_store" where
  "deleteSession sessionId stored = Some (AList.delete sessionId (getAllChatHistory stored))"

text \<open>
  \<open>formatTimestamp\<close>. \<open>Math.floor\<close> of the quotient is \<open>div\<close> on \<^typ>\<open>int\<close>. When the stored
  string does not parse, every difference is NaN, each comparison is false, and the last
  line returns the locale string of an Invalid Date. \<open>toLocaleDateString\<close> is a parameter
  (it depends on the locale and the time zone).
\<close>

definition formatTimestamp ::
  "(string \<Rightarrow> int option) \<Rightarrow> (int \<Rightarrow> string) \<Rightarrow> int \<Rightarrow> string \<Rightarrow> string" where
  "formatTimestamp dateParse toLocaleDateString now timestamp =
     (case dateParse timestamp of
        None \<Rightarrow> ''Invalid Date''
      | Some date \<Rightarrow>
          (let diffMs = now - date;
               diffMins = diffMs div 60000;
               diffHours = diffMs div 3600000;
               diffDays = diffMs div 86400000
           in if diffMins < 1 then ''Just now''
              else if diffMins < 60
                then toString diffMins @ '' min'' @ (if diffMins > 1 then ''s'' else []) @ '' ago''
              else if diffHours < 24
                then toString diffHours @ '' hour'' @ (if diffHours > 1 then ''s'' else [])
                       @ '' ago''
              else if diffDays = 1 then ''Yesterday''
              else if diffDays < 7 then toString diffDays @ '' days ago''
              else toLocaleDateString date))"

text \<open>
  \<open>Array.prototype.sort\<close> with a comparison function: a stable sort, here by insertion,
  where a result NaN of the comparison function (\<open>None\<close>) counts as \<open>0\<close>.
\<close>

definition sortCompare :: "('a \<Rightarrow> 'a \<Rightarrow> int option) \<Rightarrow> 'a \<Rightarrow> 'a \<Rightarrow> int" where
  "sortCompare comparefn x y = (case comparefn x y of None \<Rightarrow> 0 | Some v \<Rightarrow> v)"

fun sortInsert :: "('a \<Rightarrow> 'a \<Rightarrow> int option) \<Rightarrow> 'a \<Rightarrow> 'a list \<Rightarrow> 'a list" where
  "sortInsert comparefn x [] = [x]"
| "sortInsert comparefn x (y # ys) =
     (if sortCompare comparefn x y \<le> 0 then x # y # ys else y # sortInsert comparefn x ys)"

fun sort_js :: "('a \<Rightarrow> 'a \<Rightarrow> int option) \<Rightarrow> 'a list \<Rightarrow> 'a list" where
  "sort_js comparefn [] = []"
| "sort_js comparefn (x # xs) = sortInsert comparefn x (sort_js comparefn xs)"

text \<open>\<open>new Date(b.timestamp).getTime() - new Date(a.timestamp).getTime()\<close>\<close>

definition compareTimestamps ::
  "(string \<Rightarrow> int option) \<Rightarrow> chat_history \<Rightarrow> chat_history \<Rightarrow> int option" where
  "compareTimestamps dateParse a b =
     (case dateParse (hist_timestamp b) of
        None \<Rightarrow> None
      | Some tb \<Rightarrow> (case dateParse (hist_timestamp a) of None \<Rightarrow> None | Some ta \<Rightarrow> Some (tb - ta)))"

definition getChatHistoryList ::
  "(string \<Rightarrow> int option) \<Rightarrow> (int \<Rightarrow> string) \<Rightarrow> int \<Rightarrow> 'src chat_store \<Rightarrow> chat_history list" where
  "getChatHistoryList dateParse toLocaleDateString now stored =
     sort_js (compareTimestamps dateParse)
       (map (\<lambda>chat. \<lparr>hist_id = chat_id chat, hist_title = chat_title chat,
                      hist_timestamp =
                        formatTimestamp dateParse toLocaleDateString now (chat_timestamp chat),
                      hist_lastMessage = chat_lastMessage chat\<rparr>)
            (map snd (getAllChatHistory stored)))"

section \<open>ChatInterface: the state of the component\<close>

text \<open>The body and the bearer token of one call of \<open>fetch\<close> to \<open>/chat/stream\<close>.\<close>

record request =
  req_token :: "string option"
  req_query :: string
  req_session_id :: string

text \<open>
  The \<open>useState\<close> cells the turn reads and writes, and two logs of what the component
  did: \<open>messagesRef\<close> counts the calls of \<open>setMessages\<close> (each one installs a new array,
  and the save effect compares arrays by identity), \<open>fetches\<close> lists the streams opened.
\<close>

record 'src chat_state =
  messages :: "(date, 'src) message list"
  messagesRef :: nat
  input :: string
  isThinking :: bool
  thinkingStatus :: string
  sessionId :: string
  error :: "string option"
  fetches :: "request list"

definition setMessages ::
  "((date, 'src) message list \<Rightarrow> (date, 'src) message list) \<Rightarrow> 'src chat_state \<Rightarrow> 'src chat_state" where
  "setMessages f s = s\<lparr>messages := f (messages s), messagesRef := Suc (messagesRef s)\<rparr>"

text \<open>
  The save effect (\<open>useEffect\<close> on \<open>[messages, sessionId]\<close>) of the render that follows a
  change from the state \<open>before\<close> to the state \<open>after\<close>.
\<close>

definition saveEffect ::
  "(int \<Rightarrow> string) \<Rightarrow> int \<Rightarrow> 'src chat_state \<Rightarrow> 'src chat_state \<Rightarrow> 'src chat_store
     \<Rightarrow> js_error + 'src chat_store" where
  "saveEffect toISOString now before after stored =
     (if (messagesRef after \<noteq> messagesRef before \<or> sessionId after \<noteq> sessionId before)
         \<and> sessionId after \<noteq> []
      then saveChatHistory toISOString now (sessionId after) (messages after) stored
      else Inr stored)"

section \<open>The stream\<close>

text \<open>A value that was thrown: an \<open>Error\<close> with its message, or anything else.\<close>

datatype thrown = ErrorObject string | OtherValue

text \<open>\<open>err instanceof Error ? err.message : 'An error occurred'\<close>\<close>

definition errMessage :: "thrown \<Rightarrow> string" where
  "errMessage err = (case err of ErrorObject m \<Rightarrow> m | OtherValue \<Rightarrow> ''An error occurred'')"

text \<open>
  What \<open>fetch\<close> and the reader deliver to one turn: \<open>fetch\<close> rejects; or the response is
  not ok (with its status); or it has no body; or the reader yields the byte arrays
  \<open>reads\<close>, one per \<open>reader.read()\<close>, and then either reports \<open>done\<close> or rejects. A stream
  that never ends is not an input of this model.
\<close>

datatype stream_end = EndOfStream | ReadRejected thrown

datatype response =
  FetchRejected thrown
| NotOk int
| NoBody
| Body "string list" stream_end

text \<open>
  The parsed payload of a frame, as the branches of \<open>handleSend\<close> read it: \<open>data.type\<close>
  and the field that branch uses (for a \<open>chunk\<close>, the string that \<open>+=\<close> appends), \<open>Other\<close>
  for a value of no known type. The platform's \<open>JSON.parse\<close> is the parameter \<open>parse\<close> of
  the model, \<open>None\<close> where it throws or returns \<open>null\<close> (reading \<open>data.type\<close> then throws
  inside the same \<open>try\<close>); \<open>TextDecoder.decode\<close> is the parameter \<open>decode\<close>.
\<close>

datatype 'src sse_data =
  Status string
| Chunk string
| Sources "'src list"
| Done
| ErrorEvent string
| Other

text \<open>The four readings of the clock in a turn, named by what they stamp.\<close>

record clock =
  userIdNow :: int
  userTimestamp :: int
  assistantIdNow :: int
  assistantTimestamp :: int

text \<open>The local variables of the read loop.\<close>

record 'src locals =
  accumulatedContent :: string
  sources :: "'src list"
  messageAdded :: bool

definition nl :: char where
  "nl = CHR 0x0A"

text \<open>\<open>String.prototype.trim\<close>, on the code units up to U+00FF.\<close>

definition isWhiteSpace :: "char \<Rightarrow> bool" where
  "isWhiteSpace c =
     (c \<in> set [CHR 0x09, CHR 0x0A, CHR 0x0B, CHR 0x0C, CHR 0x0D, CHR 0x20, CHR 0xA0])"

definition trim :: "string \<Rightarrow> string" where
  "trim s = rev (dropWhile isWhiteSpace (rev (dropWhile isWhiteSpace s)))"

definition startsWith :: "string \<Rightarrow> string \<Rightarrow> bool" where
  "startsWith s p = (take (length p) s = p)"

text \<open>\<open>chunk.split('\n\n')\<close>: the pieces between the occurrences of two newlines, leftmost first.\<close>

fun prepend :: "char \<Rightarrow> string list \<Rightarrow> string list" where
  "prepend c [] = [[c]]"
| "prepend c (l # ls) = (c # l) # ls"

fun split_nn :: "string \<Rightarrow> string list" where
  "split_nn (a # b # cs) =
     (if a = nl \<and> b = nl then [] # split_nn cs else prepend a (split_nn (b # cs)))"
| "split_nn [a] = [[a]]"
| "split_nn [] = [[]]"

section \<open>ChatInterface: handleSend\<close>

definition assistantMessage :: "string \<Rightarrow> string \<Rightarrow> int \<Rightarrow> (date, 'src) message" where
  "assistantMessage assistantMessageId text ts =
     \<lparr>msg_id = assistantMessageId, msg_role = Assistant, msg_content = text,
      msg_timestamp = Some ts, msg_sources = None, msg_confidence = None,
      msg_iterations = None\<rparr>"

text \<open>
  The branches on \<open>data.type\<close>. The branch of an \<open>error\<close> event throws; the result is then
  the thrown value.
\<close>

definition handleData ::
  "string \<Rightarrow> int \<Rightarrow> 'src sse_data \<Rightarrow> 'src chat_state \<times> 'src locals
     \<Rightarrow> thrown + 'src chat_state \<times> 'src locals" where
  "handleData assistantMessageId ts d st =
     (case st of (s, l) \<Rightarrow>
        (case d of
           Status m \<Rightarrow> Inr (s\<lparr>thinkingStatus := m\<rparr>, l)
         | Chunk c \<Rightarrow>
             (let acc = accumulatedContent l @ c in
              if \<not> messageAdded l
              then Inr (setMessages (\<lambda>prev. prev @ [assistantMessage assistantMessageId acc ts]) s,
                        l\<lparr>accumulatedContent := acc, messageAdded := True\<rparr>)
              else Inr (setMessages
                          (map (\<lambda>msg. if msg_id msg = assistantMessageId
                                       then msg\<lparr>msg_content := acc\<rparr> else msg)) s,
                        l\<lparr>accumulatedContent := acc\<rparr>))
         | Sources srcs \<Rightarrow>
             (if messageAdded l
              then Inr (setMessages
                          (map (\<lambda>msg. if msg_id msg = assistantMessageId
                                       then msg\<lparr>msg_sources := Some srcs\<rparr> else msg)) s,
                        l\<lparr>sources := srcs\<rparr>)
              else Inr (s, l\<lparr>sources := srcs\<rparr>))
         | Done \<Rightarrow> Inr (s\<lparr>isThinking := False, thinkingStatus := []\<rparr>, l)
         | ErrorEvent m \<Rightarrow> Inl (ErrorObject m)
         | Other \<Rightarrow> Inr (s, l)))"

text \<open>
  The body of \<open>for (const line of lines)\<close>: the \<open>try\<close> around \<open>JSON.parse\<close> and the branches,
  whose \<open>catch\<close> logs whatever was thrown and goes on with the next line.
\<close>

definition tryHandleData ::
  "string \<Rightarrow> int \<Rightarrow> 'src sse_data \<Rightarrow> 'src chat_state \<times> 'src locals
     \<Rightarrow> 'src chat_state \<times> 'src locals" where
  "tryHandleData assistantMessageId ts d st =
     (case handleData assistantMessageId ts d st of Inl e \<Rightarrow> st | Inr st' \<Rightarrow> st')"

definition processLine ::
  "(string \<Rightarrow> 'src sse_data option) \<Rightarrow> string \<Rightarrow> int \<Rightarrow> string
     \<Rightarrow> 'src chat_state \<times> 'src locals \<Rightarrow> 'src chat_state \<times> 'src locals" where
  "processLine parse assistantMessageId ts line st =
     (if startsWith line ''data: ''
      then (case parse (drop 6 line) of
              None \<Rightarrow> st
            | Some d \<Rightarrow> tryHandleData assistantMessageId ts d st)
      else st)"

text \<open>One round of \<open>while (true)\<close> on the bytes \<open>val\<close> of a read that was not \<open>done\<close>.\<close>

definition processRead ::
  "(string \<Rightarrow> 'src sse_data option) \<Rightarrow> (string \<Rightarrow> string) \<Rightarrow> string \<Rightarrow> int \<Rightarrow> string
     \<Rightarrow> 'src chat_state \<times> 'src locals \<Rightarrow> 'src chat_state \<times> 'src locals" where
  "processRead parse decode assistantMessageId ts val st =
     fold (processLine parse assistantMessageId ts) (split_nn (decode val)) st"

definition readLoop ::
  "(string \<Rightarrow> 'src sse_data option) \<Rightarrow> (string \<Rightarrow> string) \<Rightarrow> string \<Rightarrow> int \<Rightarrow> string list
     \<Rightarrow> 'src chat_state \<times> 'src locals \<Rightarrow> 'src chat_state \<times> 'src locals" where
  "readLoop parse decode assistantMessageId ts reads st =
     fold (processRead parse decode assistantMessageId ts) reads st"

text \<open>The outer \<open>catch (err)\<close> and the \<open>finally\<close>.\<close>

definition catchBlock ::
  "string \<Rightarrow> int \<Rightarrow> thrown \<Rightarrow> bool \<Rightarrow> 'src chat_state \<Rightarrow> 'src chat_state" where
  "catchBlock assistantMessageId ts err added s =
     (let s1 = s\<lparr>error := Some (errMessage err)\<rparr> in
      if \<not> added
      then setMessages
             (\<lambda>prev. prev @ [assistantMessage assistantMessageId
                                (''Error: '' @ errMessage err @ ''. Please try again.'') ts]) s1
      else setMessages
             (map (\<lambda>msg. if msg_id msg = assistantMessageId
                          then msg\<lparr>msg_content := msg_content msg @ [nl, nl] @ ''Error: ''
                                                      @ errMessage err\<rparr>
                          else msg)) s1)"

definition finallyBlock :: "'src chat_state \<Rightarrow> 'src chat_state" where
  "finallyBlock s = s\<lparr>isThinking := False, thinkingStatus := []\<rparr>"

definition userMessage :: "clock \<Rightarrow> string \<Rightarrow> (date, 'src) message" where
  "userMessage clk text =
     \<lparr>msg_id = toString (userIdNow clk), msg_role = User, msg_content = text,
      msg_timestamp = Some (userTimestamp clk), msg_sources = None, msg_confidence = None,
      msg_iterations = None\<rparr>"

text \<open>The statements from the guard to the call of \<open>fetch\<close>.\<close>

definition submit :: "string option \<Rightarrow> clock \<Rightarrow> 'src chat_state \<Rightarrow> 'src chat_state" where
  "submit token clk s =
     (let s1 = (setMessages (\<lambda>prev. prev @ [userMessage clk (input s)]) s)
                 \<lparr>input := [], isThinking := True, thinkingStatus := ''Initializing...'',
                  error := None\<rparr>
      in s1\<lparr>fetches := fetches s1 @ [\<lparr>req_token = token, req_query = input s,
                                        req_session_id = sessionId s\<rparr>]\<rparr>)"

definition handleSend ::
  "(string \<Rightarrow> 'src sse_data option) \<Rightarrow> (string \<Rightarrow> string) \<Rightarrow> string option \<Rightarrow> clock \<Rightarrow> response
     \<Rightarrow> 'src chat_state \<Rightarrow> 'src chat_state" where
  "handleSend parse decode token clk resp s =
     (if trim (input s) = [] \<or> isThinking s then s
      else
        (let assistantMessageId = toString (assistantIdNow clk + 1);
             ts = assistantTimestamp clk;
             s2 = submit token clk s
         in finallyBlock
              (case resp of
                 FetchRejected err \<Rightarrow> catchBlock assistantMessageId ts err False s2
               | NotOk status \<Rightarrow>
                   catchBlock assistantMessageId ts
                     (ErrorObject (''HTTP error! status: '' @ toString status)) False s2
               | NoBody \<Rightarrow>
                   catchBlock assistantMessageId ts (ErrorObject ''No reader available'') False s2
               | Body reads ending \<Rightarrow>
                   (case readLoop parse decode assistantMessageId ts reads
                           (s2, \<lparr>accumulatedContent = [], sources = [], messageAdded = False\<rparr>) of
                      (s3, l) \<Rightarrow>
                        (case ending of
                           EndOfStream \<Rightarrow> s3
                         | ReadRejected err \<Rightarrow>
                             catchBlock assistantMessageId ts err (messageAdded l) s3)))))"

section \<open>ChatInterface: the turns in flight\<close>

text \<open>
  \<open>handleSend\<close> is an \<open>async\<close> function: a call runs to the first \<open>await\<close>, and each
  later piece runs when the promise it waits for settles. Between two pieces the event
  loop runs other handlers: the user types, clicks Send again, a read of another call
  resolves. A turn in flight is a call that has not returned: its \<open>assistantMessageId\<close>,
  the clock reading that stamps its message, and its local variables.
\<close>

record 'src turn =
  turn_id :: string
  turn_ts :: int
  turn_locals :: "'src locals"

text \<open>The component: its state, and the turns in flight, oldest first.\<close>

record 'src controller =
  ui :: "'src chat_state"
  turns :: "'src turn list"

text \<open>
  What the event loop runs: the user edits the input (\<open>setInput\<close>); a call of
  \<open>handleSend\<close>, with the token in the local storage and the clock of the call;
  \<open>reader.read()\<close> of the turn at an index resolves with bytes; it resolves with
  \<open>done\<close>; or the \<open>try\<close> block of that turn throws (\<open>fetch\<close> or \<open>read\<close> rejects, the
  response is not ok, the body has no reader). The input box is disabled while
  \<open>isThinking\<close> is set; here the input may change at any time, and a read or a throw
  may come at any time of a turn, which only adds runs to those of the component.
\<close>

datatype action =
  Typing string
| Submit "string option" clock
| ReadValue nat string
| ReadDone nat
| Rejected nat thrown

text \<open>
  One step. A call of \<open>handleSend\<close> that passes the guard runs \<open>submit\<close> and stays in
  flight; a read runs one round of the loop on the turn's variables; the end of the
  stream runs \<open>finally\<close>, a throw runs \<open>catch\<close> and \<open>finally\<close>, and the turn is over.
\<close>

definition removeTurn :: "nat \<Rightarrow> 'a list \<Rightarrow> 'a list" where
  "removeTurn i ts = take i ts @ drop (Suc i) ts"

fun step ::
  "(string \<Rightarrow> 'src sse_data option) \<Rightarrow> (string \<Rightarrow> string) \<Rightarrow> action \<Rightarrow> 'src controller
     \<Rightarrow> 'src controller" where
  "step parse decode (Typing text) c = c\<lparr>ui := (ui c)\<lparr>input := text\<rparr>\<rparr>"
| "step parse decode (Submit token clk) c =
     (if trim (input (ui c)) = [] \<or> isThinking (ui c) then c
      else c\<lparr>ui := submit token clk (ui c),
             turns := turns c
               @ [\<lparr>turn_id = toString (assistantIdNow clk + 1), turn_ts = assistantTimestamp clk,
                   turn_locals = \<lparr>accumulatedContent = [], sources = [], messageAdded = False\<rparr>\<rparr>]\<rparr>)"
| "step parse decode (ReadValue i val) c =
     (if i < length (turns c)
      then (case processRead parse decode (turn_id (turns c ! i)) (turn_ts (turns c ! i)) val
                   (ui c, turn_locals (turns c ! i)) of
              (s, l) \<Rightarrow> c\<lparr>ui := s, turns := (turns c)[i := (turns c ! i)\<lparr>turn_locals := l\<rparr>]\<rparr>)
      else c)"
| "step parse decode (ReadDone i) c =
     (if i < length (turns c)
      then c\<lparr>ui := finallyBlock (ui c), turns := removeTurn i (turns c)\<rparr>
      else c)"
| "step parse decode (Rejected i err) c =
     (if i < length (turns c)
      then c\<lparr>ui := finallyBlock
                     (catchBlock (turn_id (turns c ! i)) (turn_ts (turns c ! i)) err
                        (messageAdded (turn_locals (turns c ! i))) (ui c)),
             turns := removeTurn i (turns c)\<rparr>
      else c)"

definition run ::
  "(string \<Rightarrow> 'src sse_data option) \<Rightarrow> (string \<Rightarrow> string) \<Rightarrow> action list \<Rightarrow> 'src controller
     \<Rightarrow> 'src controller" where
  "run parse decode acts c = fold (step parse decode) acts c"

text \<open>
  The steps of one turn that meets the response \<open>resp\<close>, after its call, with nothing
  between them.
\<close>

fun script :: "response \<Rightarrow> action list" where
  "script (FetchRejected err) = [Rejected 0 err]"
| "script (NotOk status) = [Rejected 0 (ErrorObject (''HTTP error! status: '' @ toString status))]"
| "script NoBody = [Rejected 0 (ErrorObject ''No reader available'')]"
| "script (Body reads EndOfStream) = map (ReadValue 0) reads @ [ReadDone 0]"
| "script (Body reads (ReadRejected err)) = map (ReadValue 0) reads @ [Rejected 0 err]"

section \<open>The vocabulary of the properties\<close>

text \<open>
  A message whose timestamp is a valid instant that the platform's ISO string gives back.
\<close>

definition roundTrips ::
  "(int \<Rightarrow> string) \<Rightarrow> (string \<Rightarrow> int option) \<Rightarrow> (date, 'src) message \<Rightarrow> bool" where
  "roundTrips toISOString dateParse m =
     (case msg_timestamp m of None \<Rightarrow> False | Some t \<Rightarrow> dateParse (toISOString t) = Some t)"

text \<open>
  A message whose timestamp is a valid Date: a time value, not NaN.
\<close>

definition validDate :: "(date, 'src) message \<Rightarrow> bool" where
  "validDate m =
     (case msg_timestamp m of None \<Rightarrow> False | Some t \<Rightarrow> \<bar>t\<bar> \<le> 8640000000000000)"

text \<open>
  The writes of the store, and the store after one of them: a \<open>saveChatHistory\<close> that
  throws has not reached \<open>setItem\<close> and leaves the store as it was.
\<close>

datatype 'src store_op =
  Save int string "(date, 'src) message list"
| Delete string

fun applyOp :: "(int \<Rightarrow> string) \<Rightarrow> 'src store_op \<Rightarrow> 'src chat_store \<Rightarrow> 'src chat_store" where
  "applyOp toISOString (Save now sid msgs) stored =
     (case saveChatHistory toISOString now sid msgs stored of
        Inl e \<Rightarrow> stored
      | Inr stored' \<Rightarrow> stored')"
| "applyOp toISOString (Delete sid) stored = deleteSession sid stored"


text \<open>
  The wire format: a frame is the marker, a payload and a blank line. The events of a list
  of payloads are those \<open>parse\<close> accepts, in order; their fragments are the contents of
  the \<open>chunk\<close> events among them.
\<close>

definition frame :: "string \<Rightarrow> string" where
  "frame payload = ''data: '' @ payload @ [nl, nl]"

definition events :: "(string \<Rightarrow> 'src sse_data option) \<Rightarrow> string list \<Rightarrow> 'src sse_data list" where
  "events parse payloads = List.map_filter parse payloads"

fun isChunk :: "'src sse_data \<Rightarrow> bool" where
  "isChunk (Chunk c) = True"
| "isChunk d = False"

fun fragments :: "'src sse_data list \<Rightarrow> string" where
  "fragments [] = []"
| "fragments (Chunk c # evs) = c @ fragments evs"
| "fragments (d # evs) = fragments evs"

text \<open>
  Two invariants of the read loop. \<open>tracks\<close>: once the assistant message has been added,
  it is the last message, under the turn's id, and holds the accumulated content.
  \<open>kept\<close>: the session id is the one of the state \<open>s0\<close>, \<open>setMessages\<close> has been
  called at least as often as in \<open>s0\<close>, and every message can be saved and loaded.
\<close>

definition tracks :: "string \<Rightarrow> 'src chat_state \<times> 'src locals \<Rightarrow> bool" where
  "tracks aid st =
     (messageAdded (snd st) \<longrightarrow>
        messages (fst st) \<noteq> [] \<and> msg_id (last (messages (fst st))) = aid
        \<and> msg_role (last (messages (fst st))) = Assistant
        \<and> msg_content (last (messages (fst st))) = accumulatedContent (snd st))"

definition kept ::
  "(int \<Rightarrow> string) \<Rightarrow> (string \<Rightarrow> int option) \<Rightarrow> 'src chat_state \<Rightarrow> 'src chat_state \<Rightarrow> bool" where
  "kept toISOString dateParse s0 s =
     (sessionId s = sessionId s0 \<and> messagesRef s0 \<le> messagesRef s
      \<and> list_all (roundTrips toISOString dateParse) (messages s))"




section \<open>The platform's JSON and text decoding, for the examples\<close>

text \<open>
  \<open>JSON.parse\<close> on the payloads the examples use: the five events of the protocol written
  without white space, their strings free of quotes, backslashes and control characters,
  a source list of one string. On every other text \<open>parseData\<close> answers as \<open>JSON.parse\<close>
  does on a text that is not JSON; the examples give it no other JSON text.
  \<open>decodeAscii\<close> is \<open>TextDecoder.decode\<close> on bytes below 128.
\<close>

definition plain :: "string \<Rightarrow> bool" where
  "plain s = list_all (\<lambda>c. c \<noteq> CHR 0x22 \<and> c \<noteq> CHR 0x5C \<and> 32 \<le> (of_char c :: nat)) s"

definition between :: "string \<Rightarrow> string \<Rightarrow> string \<Rightarrow> string option" where
  "between pre suf s =
     (let n = length s - length pre - length suf in
      if length pre + length suf \<le> length s \<and> take (length pre) s = pre
         \<and> drop (length pre + n) s = suf \<and> plain (take n (drop (length pre) s))
      then Some (take n (drop (length pre) s))
      else None)"

definition parseData :: "string \<Rightarrow> string sse_data option" where
  \<open>parseData s =
     (if s = ''{"type":"done"}'' then Some Done
      else case between ''{"type":"chunk","content":"'' ''"}'' s of
        Some c \<Rightarrow> Some (Chunk c)
      | None \<Rightarrow>
     (case between ''{"type":"status","message":"'' ''"}'' s of
        Some m \<Rightarrow> Some (Status m)
      | None \<Rightarrow>
     (case between ''{"type":"error","message":"'' ''"}'' s of
        Some m \<Rightarrow> Some (ErrorEvent m)
      | None \<Rightarrow>
     (case between ''{"type":"sources","sources":["'' ''"]}'' s of
        Some src \<Rightarrow> Some (Sources [src])
      | None \<Rightarrow> None))))\<close>

definition decodeAscii :: "string \<Rightarrow> string" where
  "decodeAscii bytes = bytes"

section \<open>The platform's dates\<close>

text \<open>
  \<open>Date.prototype.toISOString\<close> on a time value, and \<open>new Date(string).getTime()\<close> on
  the strings of that form, after ECMA-262: \<open>YYYY-MM-DDTHH:mm:ss.sssZ\<close> for the years 0000
  to 9999, a sign and six digits for the other years. The day number is turned into a
  civil date of the proleptic Gregorian calendar (the centuries, the four-year cycles and
  the years of the 400-year era, then the month and the day of a year that starts in
  March) and back. The time value of a Date is at most 8.64e15 in absolute value
  (\<open>TimeClip\<close>). On any other string \<open>isoParse\<close> gives NaN. The functions of the storage
  service take the platform as a parameter; these two instantiate it.
\<close>

definition pad :: "nat \<Rightarrow> int \<Rightarrow> string" where
  "pad w n = replicate (w - length (digits n)) (CHR ''0'') @ digits n"

definition yearDay :: "int \<Rightarrow> int \<times> int" where
  "yearDay doe =
     (let c = min 3 (doe div 36524);
          r = doe - 36524 * c;
          a = min 3 (r mod 1461 div 365)
      in (100 * c + 4 * (r div 1461) + a, r mod 1461 - 365 * a))"

definition monthOf :: "int \<Rightarrow> int" where
  "monthOf doy = (let mp = (5 * doy + 2) div 153 in if mp < 10 then mp + 3 else mp - 9)"

definition dayOf :: "int \<Rightarrow> int" where
  "dayOf doy = doy - (153 * ((5 * doy + 2) div 153) + 2) div 5 + 1"

definition civilFromDays :: "int \<Rightarrow> int \<times> int \<times> int" where
  "civilFromDays z =
     (case yearDay ((z + 719468) mod 146097) of
        (yoe, doy) \<Rightarrow>
          (yoe + (z + 719468) div 146097 * 400 + (if monthOf doy \<le> 2 then 1 else 0),
           monthOf doy, dayOf doy))"

definition daysFromCivil :: "int \<Rightarrow> int \<Rightarrow> int \<Rightarrow> int" where
  "daysFromCivil y m d =
     (let y1 = (if m \<le> 2 then y - 1 else y);
          era = y1 div 400;
          yoe = y1 mod 400;
          doy = (153 * (if m > 2 then m - 3 else m + 9) + 2) div 5 + d - 1;
          doe = yoe * 365 + yoe div 4 - yoe div 100 + doy
      in era * 146097 + doe - 719468)"

definition isoYear :: "int \<Rightarrow> string" where
  "isoYear y =
     (if 0 \<le> y \<and> y \<le> 9999 then pad 4 y
      else (if y < 0 then CHR ''-'' else CHR ''+'') # pad 6 \<bar>y\<bar>)"

definition isoString :: "int \<Rightarrow> string" where
  "isoString t =
     (case civilFromDays (t div 1000 div 60 div 60 div 24) of
        (y, m, d) \<Rightarrow>
          isoYear y @ ''-'' @ pad 2 m @ ''-'' @ pad 2 d @ ''T''
            @ pad 2 (t div 1000 div 60 div 60 mod 24) @ '':''
            @ pad 2 (t div 1000 div 60 mod 60) @ '':''
            @ pad 2 (t div 1000 mod 60) @ ''.'' @ pad 3 (t mod 1000) @ ''Z'')"

definition digitValue :: "char \<Rightarrow> int option" where
  "digitValue c =
     (if c \<in> set ''0123456789'' then Some (int (of_char c) - 48) else None)"

fun number :: "int \<Rightarrow> string \<Rightarrow> int option" where
  "number acc [] = Some acc"
| "number acc (c # cs) =
     (case digitValue c of None \<Rightarrow> None | Some v \<Rightarrow> number (10 * acc + v) cs)"

definition field :: "nat \<Rightarrow> nat \<Rightarrow> string \<Rightarrow> int option" where
  "field from len s = number 0 (take len (drop from s))"

definition timeClip :: "int \<Rightarrow> int option" where
  "timeClip t = (if \<bar>t\<bar> \<le> 8640000000000000 then Some t else None)"

definition parseTail :: "int \<Rightarrow> string \<Rightarrow> int option" where
  "parseTail y s =
     (if length s = 20 \<and> s ! 0 = CHR ''-'' \<and> s ! 3 = CHR ''-'' \<and> s ! 6 = CHR ''T''
         \<and> s ! 9 = CHR '':'' \<and> s ! 12 = CHR '':'' \<and> s ! 15 = CHR ''.'' \<and> s ! 19 = CHR ''Z''
      then
        (case field 1 2 s of None \<Rightarrow> None | Some m \<Rightarrow>
        (case field 4 2 s of None \<Rightarrow> None | Some d \<Rightarrow>
        (case field 7 2 s of None \<Rightarrow> None | Some h \<Rightarrow>
        (case field 10 2 s of None \<Rightarrow> None | Some mi \<Rightarrow>
        (case field 13 2 s of None \<Rightarrow> None | Some sec \<Rightarrow>
        (case field 16 3 s of None \<Rightarrow> None | Some ms \<Rightarrow>
           (if 1 \<le> m \<and> m \<le> 12 \<and> 1 \<le> d \<and> d \<le> 31 \<and> h < 24 \<and> mi < 60 \<and> sec < 60
            then timeClip ((((daysFromCivil y m d * 24 + h) * 60 + mi) * 60 + sec) * 1000 + ms)
            else None)))))))
      else None)"

definition isoParse :: "string \<Rightarrow> int option" where
  "isoParse s =
     (case s of
        [] \<Rightarrow> None
      | c # cs \<Rightarrow>
          (if c = CHR ''+'' \<or> c = CHR ''-''
           then (case field 0 6 cs of
                   None \<Rightarrow> None
                 | Some y \<Rightarrow>
                     (if c = CHR ''-'' \<and> y = 0 then None
                      else parseTail (if c = CHR ''-'' then - y else y) (drop 6 cs)))
           else (case field 0 4 s of
                   None \<Rightarrow> None
                 | Some y \<Rightarrow> parseTail y (drop 4 s))))"

section \<open>The inputs of the examples\<close>

text \<open>
  An idle component with the query \<open>Hi\<close> typed in, the clock of a turn, and a component
  with a blank input.
\<close>

definition exampleClock :: clock where
  "exampleClock = \<lparr>userIdNow = 1700000000000, userTimestamp = 1700000000000,
     assistantIdNow = 1700000000000, assistantTimestamp = 1700000000500\<rparr>"

definition exampleState :: "string chat_state" where
  "exampleState = \<lparr>messages = [], messagesRef = 0, input = ''Hi'', isThinking = False,
     thinkingStatus = [], sessionId = ''session_a'', error = None, fetches = []\<rparr>"

definition blankState :: "string chat_state" where
  "blankState = exampleState\<lparr>input := [CHR 0x20, CHR 0x09, nl]\<rparr>"

definition hiMessage :: "(date, string) message" where
  "hiMessage = userMessage exampleClock ''Hi''"

definition helloMessage :: "(date, string) message" where
  "helloMessage =
     (assistantMessage ''1700000000001'' ''Hello'' 1700000000500)\<lparr>msg_sources := Some [''a.pdf'']\<rparr>"



text \<open>Payloads.\<close>

definition chunkHello :: string where
  \<open>chunkHello = ''{"type":"chunk","content":"Hello"}''\<close>

definition chunkWorld :: string where
  \<open>chunkWorld = ''{"type":"chunk","content":" world"}''\<close>

definition chunkPartial :: string where
  \<open>chunkPartial = ''{"type":"chunk","content":"Partial"}''\<close>

definition sourcesPdf :: string where
  \<open>sourcesPdf = ''{"type":"sources","sources":["a.pdf"]}''\<close>

definition doneEvent :: string where
  \<open>doneEvent = ''{"type":"done"}''\<close>

definition errorBoom :: string where
  \<open>errorBoom = ''{"type":"error","message":"boom"}''\<close>

text \<open>
  Two sessions saved ten seconds apart into an empty store, \<open>session_a\<close> first.
\<close>

definition twoSessions :: "string chat_store" where
  "twoSessions =
     fold (applyOp isoString)
       [Save 1700000000000 ''session_a'' [hiMessage], Save 1700000010000 ''session_b'' [hiMessage]]
       None"

section \<open>The ISO string of a Date parses back to the Date\<close>

lemma century_bounds:
  fixes doe :: int
  assumes "0 \<le> doe" "doe \<le> 146096"
  shows "0 \<le> min 3 (doe div 36524)" "min 3 (doe div 36524) \<le> 3"
    "0 \<le> doe - 36524 * min 3 (doe div 36524)" "doe - 36524 * min 3 (doe div 36524) \<le> 36524"
  using assms by (simp_all add: min_def) arith+

lemma cycle_bounds:
  fixes r :: int
  assumes "0 \<le> r" "r \<le> 36524"
  shows "0 \<le> r div 1461" "r div 1461 \<le> 24" "0 \<le> r mod 1461" "r mod 1461 \<le> 1460"
  using assms by arith+

lemma year_of_cycle_bounds:
  fixes r4 :: int
  assumes "0 \<le> r4" "r4 \<le> 1460"
  shows "0 \<le> min 3 (r4 div 365)" "min 3 (r4 div 365) \<le> 3"
    "0 \<le> r4 - 365 * min 3 (r4 div 365)" "r4 - 365 * min 3 (r4 div 365) \<le> 365"
  using assms by (simp_all add: min_def) arith+

lemma year_of_era:
  fixes c q a :: int
  assumes "0 \<le> c" "c \<le> 3" "0 \<le> q" "q \<le> 24" "0 \<le> a" "a \<le> 3"
  shows "(100 * c + 4 * q + a) div 4 = 25 * c + q" "(100 * c + 4 * q + a) div 100 = c"
    "0 \<le> 100 * c + 4 * q + a" "100 * c + 4 * q + a \<le> 399"
  using assms by arith+

lemma month_bounds:
  fixes doy :: int
  assumes "0 \<le> doy" "doy \<le> 365"
  shows "0 \<le> (5 * doy + 2) div 153" "(5 * doy + 2) div 153 \<le> 11"
    "1 \<le> doy - (153 * ((5 * doy + 2) div 153) + 2) div 5 + 1"
    "doy - (153 * ((5 * doy + 2) div 153) + 2) div 5 + 1 \<le> 31"
  using assms by arith+

lemma era_split:
  fixes yoe era :: int
  assumes "0 \<le> yoe" "yoe \<le> 399"
  shows "(yoe + era * 400) div 400 = era" "(yoe + era * 400) mod 400 = yoe"
  using assms by simp_all

lemma yearDay_spec:
  assumes "0 \<le> doe" "doe \<le> 146096" "yearDay doe = (yoe, doy)"
  shows "0 \<le> yoe" "yoe \<le> 399" "0 \<le> doy" "doy \<le> 365"
    "yoe * 365 + yoe div 4 - yoe div 100 + doy = doe"
proof -
  define c where "c = min 3 (doe div 36524)"
  define r where "r = doe - 36524 * c"
  define q where "q = r div 1461"
  define r4 where "r4 = r mod 1461"
  define a where "a = min 3 (r4 div 365)"
  note c = century_bounds [OF assms(1,2), folded c_def, folded r_def]
  note q = cycle_bounds [OF c(3,4), folded q_def r4_def]
  note a = year_of_cycle_bounds [OF q(3,4), folded a_def]
  note y = year_of_era [OF c(1,2) q(1,2) a(1,2)]
  from assms(3) [unfolded yearDay_def Let_def, folded c_def, folded r_def, folded q_def r4_def,
      folded a_def]
  have yoe: "yoe = 100 * c + 4 * q + a" and doy: "doy = r4 - 365 * a"
    by simp_all
  from y(3,4) yoe show "0 \<le> yoe" "yoe \<le> 399" by simp_all
  from a(3,4) doy show "0 \<le> doy" "doy \<le> 365" by simp_all
  have r: "r = 1461 * q + r4"
    by (simp add: q_def r4_def)
  show "yoe * 365 + yoe div 4 - yoe div 100 + doy = doe"
    unfolding yoe y(1,2) using r by (simp add: doy r_def)
qed

lemma monthOf_spec:
  assumes "0 \<le> doy" "doy \<le> 365"
  shows "1 \<le> monthOf doy" "monthOf doy \<le> 12" "1 \<le> dayOf doy" "dayOf doy \<le> 31"
    "(153 * (if monthOf doy > 2 then monthOf doy - 3 else monthOf doy + 9) + 2) div 5
       + dayOf doy - 1 = doy"
proof -
  define mp where "mp = (5 * doy + 2) div 153"
  note mp = month_bounds [OF assms, folded mp_def]
  have m: "monthOf doy = (if mp < 10 then mp + 3 else mp - 9)"
    by (simp add: monthOf_def mp_def)
  have d: "dayOf doy = doy - (153 * mp + 2) div 5 + 1"
    by (simp add: dayOf_def mp_def)
  from m mp(1,2) show "1 \<le> monthOf doy" "monthOf doy \<le> 12" by (auto split: if_splits)
  from d mp(3,4) show "1 \<le> dayOf doy" "dayOf doy \<le> 31" by simp_all
  have "(if monthOf doy > 2 then monthOf doy - 3 else monthOf doy + 9) = mp"
    using m mp(1,2) by (auto split: if_splits)
  then show "(153 * (if monthOf doy > 2 then monthOf doy - 3 else monthOf doy + 9) + 2) div 5
       + dayOf doy - 1 = doy"
    using d by simp
qed

lemma civil_spec:
  assumes "civilFromDays z = (y, m, d)"
  shows "daysFromCivil y m d = z" "1 \<le> m" "m \<le> 12" "1 \<le> d" "d \<le> 31"
    "y \<le> (z + 719468) div 146097 * 400 + 400" "(z + 719468) div 146097 * 400 \<le> y"
proof -
  define era where "era = (z + 719468) div 146097"
  define doe where "doe = (z + 719468) mod 146097"
  obtain yoe doy where yd: "yearDay doe = (yoe, doy)"
    by (cases "yearDay doe")
  have doe: "0 \<le> doe" "doe \<le> 146096"
    by (simp_all add: doe_def)
  note ys = yearDay_spec [OF doe yd]
  note ms = monthOf_spec [OF ys(3,4)]
  from assms yd have m: "m = monthOf doy" and d: "d = dayOf doy"
    and y: "y = yoe + era * 400 + (if monthOf doy \<le> 2 then 1 else 0)"
    by (auto simp: civilFromDays_def era_def doe_def)
  from m ms show "1 \<le> m" "m \<le> 12" by simp_all
  from d ms show "1 \<le> d" "d \<le> 31" by simp_all
  from y ys(1,2) show "y \<le> (z + 719468) div 146097 * 400 + 400"
      "(z + 719468) div 146097 * 400 \<le> y"
    by (simp_all add: era_def)
  have y1: "(if monthOf doy \<le> 2 then y - 1 else y) = yoe + era * 400"
    using y by simp
  have z1: "z + 719468 = era * 146097 + doe"
    by (simp add: era_def doe_def)
  have "daysFromCivil y m d = era * 146097 + (yoe * 365 + yoe div 4 - yoe div 100 + doy) - 719468"
    unfolding daysFromCivil_def Let_def m d unfolding y1 era_split [OF ys(1,2)] ms(5) by simp
  with ys(5) z1 show "daysFromCivil y m d = z"
    by simp
qed

lemma digit_cases:
  fixes k :: int
  assumes "0 \<le> k" "k < 10"
  shows "k = 0 \<or> k = 1 \<or> k = 2 \<or> k = 3 \<or> k = 4 \<or> k = 5 \<or> k = 6 \<or> k = 7 \<or> k = 8 \<or> k = 9"
  using assms by arith

lemma digit_spec:
  "digitValue (digit n) = Some (n mod 10)" "digit n \<noteq> CHR ''+''" "digit n \<noteq> CHR ''-''"
proof -
  have "0 \<le> n mod 10" "n mod 10 < 10" by simp_all
  from digit_cases [OF this]
  show "digitValue (digit n) = Some (n mod 10)" "digit n \<noteq> CHR ''+''" "digit n \<noteq> CHR ''-''"
    unfolding digit_def by (elim disjE; simp add: digitValue_def)+
qed

lemma number_append:
  "number acc (xs @ ys) = (case number acc xs of None \<Rightarrow> None | Some a \<Rightarrow> number a ys)"
  by (induction xs arbitrary: acc) (auto split: option.splits)

lemma number_digits:
  "0 \<le> n \<Longrightarrow> number acc (digits n) = Some (acc * 10 ^ length (digits n) + n)"
proof (induction n arbitrary: acc rule: digits.induct)
  case (1 n)
  show ?case
  proof (cases "n < 10")
    case True
    with "1.prems" show ?thesis
      by (simp add: digits.simps [of n] digit_spec)
  next
    case False
    with "1.prems" have "0 \<le> n div 10" by simp
    from "1.IH" [OF False this]
    have "number acc (digits (n div 10))
            = Some (acc * 10 ^ length (digits (n div 10)) + n div 10)" .
    with False show ?thesis
      by (simp add: digits.simps [of n] number_append digit_spec algebra_simps)
  qed
qed

lemma length_digits:
  "0 \<le> n \<Longrightarrow> n < 10 ^ Suc k \<Longrightarrow> length (digits n) \<le> Suc k"
proof (induction k arbitrary: n)
  case 0
  then show ?case by (simp add: digits.simps [of n])
next
  case (Suc k)
  show ?case
  proof (cases "n < 10")
    case True
    then show ?thesis by (simp add: digits.simps [of n])
  next
    case False
    from Suc.prems have "0 \<le> n div 10" "n div 10 < 10 ^ Suc k"
      by simp_all
    from Suc.IH [OF this] False show ?thesis
      by (simp add: digits.simps [of n])
  qed
qed

lemma number_zeros: "number 0 (replicate k (CHR ''0'') @ s) = number 0 s"
  by (induction k) (simp_all add: digitValue_def)

lemma digits_first: "digits n \<noteq> [] \<and> hd (digits n) \<noteq> CHR ''+'' \<and> hd (digits n) \<noteq> CHR ''-''"
proof (induction n rule: digits.induct)
  case (1 n)
  show ?case
  proof (cases "n < 10")
    case True
    then show ?thesis by (simp add: digits.simps [of n] digit_spec)
  next
    case False
    with "1.IH" show ?thesis by (simp add: digits.simps [of n])
  qed
qed

lemma pad_spec:
  assumes "0 \<le> n" "n < 10 ^ Suc k"
  shows "length (pad (Suc k) n) = Suc k" "number 0 (pad (Suc k) n) = Some n"
    "hd (pad (Suc k) n) \<noteq> CHR ''+''" "hd (pad (Suc k) n) \<noteq> CHR ''-''"
proof -
  from length_digits [OF assms] show "length (pad (Suc k) n) = Suc k"
    by (simp add: pad_def)
  from assms(1) show "number 0 (pad (Suc k) n) = Some n"
    by (simp add: pad_def number_zeros number_digits)
  show "hd (pad (Suc k) n) \<noteq> CHR ''+''" "hd (pad (Suc k) n) \<noteq> CHR ''-''"
    using digits_first [of n]
    by (cases "Suc k - length (digits n)"; simp add: pad_def)+
qed

lemma pad_widths:
  assumes "0 \<le> n"
  shows "n < 100 \<Longrightarrow> length (pad 2 n) = 2 \<and> number 0 (pad 2 n) = Some n"
    and "n < 1000 \<Longrightarrow> length (pad 3 n) = 3 \<and> number 0 (pad 3 n) = Some n"
    and "n < 10000 \<Longrightarrow> length (pad 4 n) = 4 \<and> number 0 (pad 4 n) = Some n
           \<and> hd (pad 4 n) \<noteq> CHR ''+'' \<and> hd (pad 4 n) \<noteq> CHR ''-''"
    and "n < 1000000 \<Longrightarrow> length (pad 6 n) = 6 \<and> number 0 (pad 6 n) = Some n"
  using pad_spec [OF assms, of 1] pad_spec [OF assms, of 2] pad_spec [OF assms, of 3]
    pad_spec [OF assms, of 5]
  by (simp_all add: eval_nat_numeral)

lemma length_two: "length xs = 2 \<Longrightarrow> \<exists>x1 x2. xs = [x1, x2]"
  by (cases xs; cases "tl xs") auto

lemma length_three: "length xs = 3 \<Longrightarrow> \<exists>x1 x2 x3. xs = [x1, x2, x3]"
  by (cases xs; cases "tl xs"; cases "tl (tl xs)") auto

lemma parseTail_format:
  assumes "length a = 2" "length b = 2" "length c = 2" "length e = 2" "length f = 2"
    "length g = 3"
    and "number 0 a = Some m" "number 0 b = Some d" "number 0 c = Some h"
    "number 0 e = Some mi" "number 0 f = Some sec" "number 0 g = Some ms"
    and "1 \<le> m" "m \<le> 12" "1 \<le> d" "d \<le> 31" "h < 24" "mi < 60" "sec < 60"
  shows "parseTail y (''-'' @ a @ ''-'' @ b @ ''T'' @ c @ '':'' @ e @ '':'' @ f @ ''.'' @ g @ ''Z'')
      = timeClip ((((daysFromCivil y m d * 24 + h) * 60 + mi) * 60 + sec) * 1000 + ms)"
proof -
  from length_two [OF assms(1)] obtain a1 a2 where a: "a = [a1, a2]" by blast
  from length_two [OF assms(2)] obtain b1 b2 where b: "b = [b1, b2]" by blast
  from length_two [OF assms(3)] obtain c1 c2 where c: "c = [c1, c2]" by blast
  from length_two [OF assms(4)] obtain e1 e2 where e: "e = [e1, e2]" by blast
  from length_two [OF assms(5)] obtain f1 f2 where f: "f = [f1, f2]" by blast
  from length_three [OF assms(6)] obtain g1 g2 g3 where g: "g = [g1, g2, g3]" by blast
  from assms(7-19) a b c e f g show ?thesis
    by (simp add: parseTail_def field_def)
qed

lemma day_bounds:
  fixes t :: int
  assumes "\<bar>t\<bar> \<le> 8640000000000000"
  shows "- 100000000 \<le> t div 1000 div 60 div 60 div 24" "t div 1000 div 60 div 60 div 24 \<le> 100000000"
proof -
  from assms have t: "- 8640000000000000 \<le> t" "t \<le> 8640000000000000" by simp_all
  from zdiv_mono1 [OF t(1), of 1000] zdiv_mono1 [OF t(2), of 1000]
  have a: "- 8640000000000 \<le> t div 1000" "t div 1000 \<le> 8640000000000" by simp_all
  from zdiv_mono1 [OF a(1), of 60] zdiv_mono1 [OF a(2), of 60]
  have b: "- 144000000000 \<le> t div 1000 div 60" "t div 1000 div 60 \<le> 144000000000" by simp_all
  from zdiv_mono1 [OF b(1), of 60] zdiv_mono1 [OF b(2), of 60]
  have c: "- 2400000000 \<le> t div 1000 div 60 div 60" "t div 1000 div 60 div 60 \<le> 2400000000"
    by simp_all
  from zdiv_mono1 [OF c(1), of 24] zdiv_mono1 [OF c(2), of 24]
  show "- 100000000 \<le> t div 1000 div 60 div 60 div 24" "t div 1000 div 60 div 60 div 24 \<le> 100000000"
    by simp_all
qed

lemma year_bounds:
  fixes z :: int
  assumes "- 100000000 \<le> z" "z \<le> 100000000"
  shows "- 276000 \<le> (z + 719468) div 146097 * 400" "(z + 719468) div 146097 * 400 + 400 \<le> 276400"
proof -
  from assms have z: "- 99280532 \<le> z + 719468" "z + 719468 \<le> 100719468" by simp_all
  from zdiv_mono1 [OF z(1), of 146097] zdiv_mono1 [OF z(2), of 146097]
  have "- 680 \<le> (z + 719468) div 146097" "(z + 719468) div 146097 \<le> 689" by simp_all
  then show "- 276000 \<le> (z + 719468) div 146097 * 400"
      "(z + 719468) div 146097 * 400 + 400 \<le> 276400"
    by simp_all
qed

lemma isoParse_year:
  assumes "\<bar>y\<bar> < 1000000" and "length rest = 20"
  shows "isoParse (isoYear y @ rest) = parseTail y rest"
proof (cases "0 \<le> y \<and> y \<le> 9999")
  case True
  then have p: "length (pad 4 y) = 4" "number 0 (pad 4 y) = Some y"
      "hd (pad 4 y) \<noteq> CHR ''+''" "hd (pad 4 y) \<noteq> CHR ''-''"
    using pad_widths(3) [of y] by simp_all
  then obtain c cs where cs: "pad 4 y = c # cs" by (cases "pad 4 y") auto
  with p(3,4) have c: "c \<noteq> CHR ''+''" "c \<noteq> CHR ''-''" by simp_all
  have f: "field 0 4 (pad 4 y @ rest) = Some y" "drop 4 (pad 4 y @ rest) = rest"
    using p(1,2) by (simp_all add: field_def)
  from True have "isoParse (isoYear y @ rest) = isoParse ((c # cs) @ rest)"
    by (simp add: isoYear_def cs)
  also have "\<dots> = parseTail y rest"
    using c f [unfolded cs] by (simp add: isoParse_def)
  finally show ?thesis .
next
  case False
  with assms(1) have a: "0 \<le> \<bar>y\<bar>" "\<bar>y\<bar> < 1000000" "y \<noteq> 0" by auto
  from pad_widths(4) [OF a(1,2)] have p: "length (pad 6 \<bar>y\<bar>) = 6" "number 0 (pad 6 \<bar>y\<bar>) = Some \<bar>y\<bar>"
    by simp_all
  have f: "field 0 6 (pad 6 \<bar>y\<bar> @ rest) = Some \<bar>y\<bar>" "drop 6 (pad 6 \<bar>y\<bar> @ rest) = rest"
    using p by (simp_all add: field_def)
  from False a(3) f show ?thesis
    by (auto simp: isoYear_def isoParse_def)
qed

lemma iso_round_trip:
  assumes "\<bar>t\<bar> \<le> 8640000000000000"
  shows "isoParse (isoString t) = Some t"
proof -
  define z where "z = t div 1000 div 60 div 60 div 24"
  define h where "h = t div 1000 div 60 div 60 mod 24"
  define mi where "mi = t div 1000 div 60 mod 60"
  define sec where "sec = t div 1000 mod 60"
  define ms where "ms = t mod 1000"
  obtain y m d where cv: "civilFromDays z = (y, m, d)"
    by (cases "civilFromDays z") auto
  note cs = civil_spec [OF cv]
  note yb = year_bounds [OF day_bounds [OF assms, folded z_def]]
  from cs(6,7) yb have y: "\<bar>y\<bar> < 1000000" by simp
  have r: "0 \<le> h" "h < 24" "0 \<le> mi" "mi < 60" "0 \<le> sec" "sec < 60" "0 \<le> ms" "ms < 1000"
    by (simp_all add: h_def mi_def sec_def ms_def)
  have pm: "length (pad 2 m) = 2 \<and> number 0 (pad 2 m) = Some m"
    using pad_widths(1) [of m] cs(2,3) by simp
  have pd: "length (pad 2 d) = 2 \<and> number 0 (pad 2 d) = Some d"
    using pad_widths(1) [of d] cs(4,5) by simp
  have ph: "length (pad 2 h) = 2 \<and> number 0 (pad 2 h) = Some h"
    using pad_widths(1) [of h] r by simp
  have pi: "length (pad 2 mi) = 2 \<and> number 0 (pad 2 mi) = Some mi"
    using pad_widths(1) [of mi] r by simp
  have ps: "length (pad 2 sec) = 2 \<and> number 0 (pad 2 sec) = Some sec"
    using pad_widths(1) [of sec] r by simp
  have pms: "length (pad 3 ms) = 3 \<and> number 0 (pad 3 ms) = Some ms"
    using pad_widths(2) [of ms] r by simp
  let ?tl = "''-'' @ pad 2 m @ ''-'' @ pad 2 d @ ''T'' @ pad 2 h @ '':'' @ pad 2 mi @ '':''
               @ pad 2 sec @ ''.'' @ pad 3 ms @ ''Z''"
  have len: "length ?tl = 20"
    using pm pd ph pi ps pms by simp
  have "parseTail y ?tl
          = timeClip ((((daysFromCivil y m d * 24 + h) * 60 + mi) * 60 + sec) * 1000 + ms)"
    using pm pd ph pi ps pms cs(2-5) r
    by (intro parseTail_format) simp_all
  also have "(((daysFromCivil y m d * 24 + h) * 60 + mi) * 60 + sec) * 1000 + ms = t"
    by (simp add: cs(1) z_def h_def mi_def sec_def ms_def)
  finally have pt: "parseTail y ?tl = Some t"
    using assms by (simp add: timeClip_def)
  have "isoString t = isoYear y @ ?tl"
    using cv by (simp add: isoString_def z_def h_def mi_def sec_def ms_def)
  with isoParse_year [OF y len] pt show ?thesis
    by simp
qed

section \<open>Facts about the store\<close>

lemma parse_serialize:
  "serializeMessage toISOString m = Some sm \<Longrightarrow> roundTrips toISOString dateParse m \<Longrightarrow>
   parseMessage dateParse sm = m"
  by (auto simp: serializeMessage_def parseMessage_def roundTrips_def split: option.splits)

lemma serializeMessage_Some:
  "roundTrips toISOString dateParse m \<Longrightarrow> \<exists>sm. serializeMessage toISOString m = Some sm"
  by (auto simp: serializeMessage_def roundTrips_def split: option.splits)

lemma serialize_parse:
  "\<forall>m\<in>set msgs. roundTrips toISOString dateParse m \<Longrightarrow>
   \<exists>smsgs. serializeMessages toISOString msgs = Some smsgs
            \<and> map (parseMessage dateParse) smsgs = msgs"
proof (induction msgs)
  case Nil
  then show ?case by simp
next
  case (Cons m ms)
  then obtain smsgs where sm: "serializeMessages toISOString ms = Some smsgs"
      "map (parseMessage dateParse) smsgs = ms"
    by auto
  from Cons.prems obtain s1 where s1: "serializeMessage toISOString m = Some s1"
    using serializeMessage_Some [of toISOString dateParse m] by auto
  with Cons.prems have "parseMessage dateParse s1 = m"
    by (simp add: parse_serialize)
  with sm s1 show ?case by simp
qed

lemma saveChatHistory_loadSession:
  assumes "sid \<noteq> ''__proto__''" and "msgs \<noteq> []"
    and "\<forall>m\<in>set msgs. roundTrips toISOString dateParse m"
  shows "\<exists>stored'. saveChatHistory toISOString now sid msgs stored = Inr stored'
                    \<and> loadSession dateParse sid stored' = Inr (Some msgs)"
proof -
  from serialize_parse [OF assms(3)] obtain smsgs where
    sm: "serializeMessages toISOString msgs = Some smsgs" "map (parseMessage dateParse) smsgs = msgs"
    by blast
  show ?thesis using assms(1,2) sm
    by (simp add: saveChatHistory_def loadSession_def getProperty_def setProperty_def
          getAllChatHistory_def update_conv' Let_def)
qed

lemma validDate_roundTrips: "validDate m \<Longrightarrow> roundTrips isoString isoParse m"
  by (auto simp: validDate_def roundTrips_def iso_round_trip split: option.splits)








section \<open>Facts about the read loop\<close>

lemma trim_whitespace:
  assumes "\<forall>c\<in>set s. isWhiteSpace c"
  shows "trim s = []"
proof -
  from assms have "dropWhile isWhiteSpace s = []"
    by (induction s) auto
  then show ?thesis
    unfolding trim_def by (simp only: rev.simps dropWhile.simps)
qed

text \<open>Whole frames: the split gives back the lines, and a last empty piece.\<close>

lemma split_nn_line:
  "nl \<notin> set xs \<Longrightarrow> split_nn (xs @ nl # nl # rest) = xs # split_nn rest"
proof (induction xs)
  case Nil
  then show ?case by simp
next
  case (Cons x xs)
  then have IH: "split_nn (xs @ nl # nl # rest) = xs # split_nn rest" and x: "x \<noteq> nl"
    by auto
  obtain b cs where bc: "xs @ nl # nl # rest = b # cs"
    by (cases xs) auto
  then have "split_nn ((x # xs) @ nl # nl # rest) = prepend x (split_nn (b # cs))"
    using x by simp
  with IH bc show ?case by simp
qed

lemma split_nn_marked:
  "nl \<notin> set pre \<Longrightarrow> \<forall>p\<in>set ps. nl \<notin> set p \<Longrightarrow>
   split_nn (concat (map (\<lambda>p. pre @ p @ [nl, nl]) ps)) = map (\<lambda>p. pre @ p) ps @ [[]]"
proof (induction ps)
  case Nil
  then show ?case by simp
next
  case (Cons p ps)
  then have "nl \<notin> set (pre @ p)"
    by simp
  from split_nn_line [OF this, of "concat (map (\<lambda>p. pre @ p @ [nl, nl]) ps)"] Cons show ?case
    by simp
qed

lemma split_nn_frames:
  assumes "\<forall>p\<in>set ps. nl \<notin> set p"
  shows "split_nn (concat (map frame ps)) = map (\<lambda>p. ''data: '' @ p) ps @ [[]]"
proof -
  have "nl \<notin> set ''data: ''"
    by (simp add: nl_def)
  from split_nn_marked [OF this assms] show ?thesis
    by (simp add: frame_def [abs_def])
qed

lemma processLine_data:
  "processLine parse aid ts (''data: '' @ p) st =
     (case parse p of None \<Rightarrow> st | Some d \<Rightarrow> tryHandleData aid ts d st)"
  by (simp add: processLine_def startsWith_def)

lemma processLine_empty: "processLine parse aid ts [] st = st"
  by (simp add: processLine_def startsWith_def)

lemma fold_lines:
  "fold (processLine parse aid ts) (map (\<lambda>p. ''data: '' @ p) ps @ ls) st =
   fold (processLine parse aid ts) ls (fold (tryHandleData aid ts) (events parse ps) st)"
proof (induction ps arbitrary: st)
  case Nil
  then show ?case by (simp add: events_def map_filter_simps)
next
  case (Cons p ps)
  show ?case
    using Cons.IH
    by (cases "parse p") (simp_all add: processLine_data events_def map_filter_simps del: append.simps)
qed

lemma events_append: "events parse (ps @ qs) = events parse ps @ events parse qs"
  by (simp add: events_def map_filter_def)

lemma processRead_frames:
  assumes "decode val = concat (map frame ps)" and "\<forall>p\<in>set ps. nl \<notin> set p"
  shows "processRead parse decode aid ts val st = fold (tryHandleData aid ts) (events parse ps) st"
  using fold_lines [of parse aid ts ps "[[]]" st]
  by (simp add: processRead_def assms split_nn_frames processLine_empty)

lemma readLoop_frames:
  "map decode reads = map (\<lambda>ps. concat (map frame ps)) groups \<Longrightarrow>
   \<forall>p\<in>set (concat groups). nl \<notin> set p \<Longrightarrow>
   readLoop parse decode aid ts reads st
     = fold (tryHandleData aid ts) (events parse (concat groups)) st"
proof (induction reads arbitrary: groups st)
  case Nil
  then show ?case by (simp add: readLoop_def events_def map_filter_simps)
next
  case (Cons val reads)
  then obtain ps gs where g: "groups = ps # gs" by (cases groups) auto
  with Cons.prems have d: "decode val = concat (map frame ps)"
      and r: "map decode reads = map (\<lambda>ps. concat (map frame ps)) gs"
      and n1: "\<forall>p\<in>set ps. nl \<notin> set p" and n2: "\<forall>p\<in>set (concat gs). nl \<notin> set p"
    by auto
  from Cons.IH [OF r n2] have
    IH: "\<And>st. fold (processRead parse decode aid ts) reads st
           = fold (tryHandleData aid ts) (events parse (concat gs)) st"
    by (simp add: readLoop_def)
  show ?case
    by (simp add: readLoop_def IH processRead_frames [where decode = decode and val = val, OF d n1]
          g events_append)
qed

text \<open>One event, then any number of them.\<close>

lemma fold_preserves:
  "(\<And>x st. P st \<Longrightarrow> P (f x st)) \<Longrightarrow> P st \<Longrightarrow> P (fold f xs st)"
  by (induction xs arbitrary: st) auto

lemma fragments_Cons: "fragments (d # evs) = fragments [d] @ fragments evs"
  by (cases d) simp_all

lemma tryHandleData_acc:
  "accumulatedContent (snd (tryHandleData aid ts d st)) = accumulatedContent (snd st) @ fragments [d]"
  by (cases st; cases d) (simp_all add: tryHandleData_def handleData_def Let_def)

lemma tryHandleData_added:
  "messageAdded (snd (tryHandleData aid ts d st)) = (messageAdded (snd st) \<or> isChunk d)"
  by (cases st; cases d) (auto simp: tryHandleData_def handleData_def Let_def)

lemma tryHandleData_tracks:
  "tracks aid st \<Longrightarrow> tracks aid (tryHandleData aid ts d st)"
  by (cases st; cases d)
     (auto simp: tracks_def tryHandleData_def handleData_def Let_def setMessages_def
        assistantMessage_def last_map)

lemma fold_acc:
  "accumulatedContent (snd (fold (tryHandleData aid ts) evs st))
     = accumulatedContent (snd st) @ fragments evs"
proof (induction evs arbitrary: st)
  case Nil
  then show ?case by simp
next
  case (Cons d evs)
  show ?case
    by (simp add: Cons.IH tryHandleData_acc fragments_Cons [of d evs])
qed

lemma fold_added:
  "messageAdded (snd (fold (tryHandleData aid ts) evs st))
     = (messageAdded (snd st) \<or> list_ex isChunk evs)"
  by (induction evs arbitrary: st) (auto simp: tryHandleData_added)

lemma fold_tracks:
  "tracks aid st \<Longrightarrow> tracks aid (fold (tryHandleData aid ts) evs st)"
  by (rule fold_preserves) (rule tryHandleData_tracks)

lemma roundTrips_update [simp]:
  "roundTrips f g (m\<lparr>msg_content := c\<rparr>) = roundTrips f g m"
  "roundTrips f g (m\<lparr>msg_sources := x\<rparr>) = roundTrips f g m"
  by (simp_all add: roundTrips_def)

lemma roundTrips_assistantMessage:
  "g (f ts) = Some ts \<Longrightarrow> roundTrips f g (assistantMessage aid body ts)"
  by (simp add: roundTrips_def assistantMessage_def)

lemma tryHandleData_kept:
  "g (f ts) = Some ts \<Longrightarrow> kept f g s0 (fst st) \<Longrightarrow> kept f g s0 (fst (tryHandleData aid ts d st))"
  by (cases st; cases d)
     (auto simp: kept_def tryHandleData_def handleData_def Let_def setMessages_def
        roundTrips_assistantMessage list_all_iff)

lemma fold_kept:
  "g (f ts) = Some ts \<Longrightarrow> kept f g s0 (fst st) \<Longrightarrow>
   kept f g s0 (fst (fold (tryHandleData aid ts) evs st))"
  by (rule fold_preserves [where P = "\<lambda>st. kept f g s0 (fst st)"]) (rule tryHandleData_kept)

lemma loop_result:
  assumes "map decode reads = map (\<lambda>ps. concat (map frame ps)) groups"
    and "\<forall>p\<in>set (concat groups). nl \<notin> set p"
  shows "\<exists>s3 l. readLoop parse decode aid ts reads
                  (s2, \<lparr>accumulatedContent = [], sources = [], messageAdded = False\<rparr>) = (s3, l)
           \<and> accumulatedContent l = fragments (events parse (concat groups))
           \<and> messageAdded l = list_ex isChunk (events parse (concat groups))
           \<and> tracks aid (s3, l)
           \<and> (g (f ts) = Some ts \<longrightarrow> kept f g s0 s2 \<longrightarrow> kept f g s0 s3)"
proof -
  let ?init = "(s2, \<lparr>accumulatedContent = [], sources = [], messageAdded = False\<rparr>)"
  let ?evs = "events parse (concat groups)"
  let ?st = "fold (tryHandleData aid ts) ?evs ?init"
  have eq: "readLoop parse decode aid ts reads ?init = ?st"
    by (rule readLoop_frames [OF assms])
  have a: "accumulatedContent (snd ?st) = fragments ?evs"
    by (simp add: fold_acc)
  have b: "messageAdded (snd ?st) = list_ex isChunk ?evs"
    by (simp add: fold_added)
  have "tracks aid ?init"
    by (simp add: tracks_def)
  then have c: "tracks aid ?st"
    by (rule fold_tracks)
  have d: "g (f ts) = Some ts \<longrightarrow> kept f g s0 s2 \<longrightarrow> kept f g s0 (fst ?st)"
    using fold_kept [of g f ts s0 ?init aid ?evs] by simp
  show ?thesis
    using eq a b c d by (cases ?st) simp
qed


lemma isThinking_tryHandleData:
  "d \<noteq> Done \<Longrightarrow> isThinking (fst (tryHandleData aid ts d st)) = isThinking (fst st)"
  by (cases st; cases d) (simp_all add: tryHandleData_def handleData_def Let_def setMessages_def)

lemma isThinking_fold:
  "Done \<notin> set evs \<Longrightarrow>
   isThinking (fst (fold (tryHandleData aid ts) evs st)) = isThinking (fst st)"
proof (induction evs arbitrary: st)
  case Nil
  then show ?case by simp
next
  case (Cons d evs)
  then have d: "d \<noteq> Done" and rest: "Done \<notin> set evs"
    by auto
  show ?case
    by (simp add: Cons.IH [OF rest] isThinking_tryHandleData [OF d])
qed

lemma messages_finallyBlock [simp]: "messages (finallyBlock s) = messages s"
  by (simp add: finallyBlock_def)

lemma kept_submit:
  assumes "list_all (roundTrips f g) (messages s)" and "g (f (userTimestamp clk)) = Some (userTimestamp clk)"
  shows "kept f g (submit token clk s) (submit token clk s)"
    and "sessionId (submit token clk s) = sessionId s"
    and "messagesRef (submit token clk s) = Suc (messagesRef s)"
  using assms
  by (simp_all add: kept_def submit_def setMessages_def Let_def userMessage_def roundTrips_def)

lemma kept_catchBlock:
  "kept f g s0 s \<Longrightarrow> kept f g s0 (catchBlock aid ts err True s)"
  by (auto simp: kept_def catchBlock_def setMessages_def Let_def list_all_iff)

lemma kept_finallyBlock:
  "kept f g s0 s \<Longrightarrow> kept f g s0 (finallyBlock s)"
  by (simp add: kept_def finallyBlock_def)

lemma catchBlock_last:
  assumes "tracks aid (s, l)" and "messageAdded l"
  shows "messages (catchBlock aid ts err True s) \<noteq> []"
    and "msg_role (last (messages (catchBlock aid ts err True s))) = Assistant"
    and "msg_content (last (messages (catchBlock aid ts err True s)))
          = accumulatedContent l @ [nl, nl] @ ''Error: '' @ errMessage err"
  using assms
  by (simp_all add: tracks_def catchBlock_def setMessages_def Let_def last_map)

lemma saveEffect_loadSession:
  assumes "kept f g s2 s'" and "sessionId s2 = sessionId s" and "messagesRef s2 = Suc (messagesRef s)"
    and "sessionId s \<noteq> []" and "sessionId s \<noteq> ''__proto__''" and "messages s' \<noteq> []"
  shows "\<exists>stored'. saveEffect f now s s' stored = Inr stored'
            \<and> loadSession g (sessionId s) stored' = Inr (Some (messages s'))"
proof -
  from assms(1) have rt: "\<forall>m\<in>set (messages s'). roundTrips f g m"
    and sid: "sessionId s' = sessionId s2" and ref: "messagesRef s2 \<le> messagesRef s'"
    by (simp_all add: kept_def list_all_iff)
  from saveChatHistory_loadSession [OF assms(5,6) rt, of now stored]
  show ?thesis
    using sid ref assms(2,3,4) by (simp add: saveEffect_def)
qed

section \<open>Facts about the turns in flight\<close>

text \<open>A turn whose steps run with nothing between them is \<open>handleSend\<close>.\<close>

lemma run_reads:
  "run parse decode (map (ReadValue 0) reads) \<lparr>ui = s, turns = [t]\<rparr>
     = (case readLoop parse decode (turn_id t) (turn_ts t) reads (s, turn_locals t) of
          (s3, l) \<Rightarrow> \<lparr>ui = s3, turns = [t\<lparr>turn_locals := l\<rparr>]\<rparr>)"
proof (induction reads arbitrary: s t)
  case Nil
  then show ?case by (simp add: run_def readLoop_def)
next
  case (Cons val reads)
  obtain s1 l1 where p: "processRead parse decode (turn_id t) (turn_ts t) val (s, turn_locals t) = (s1, l1)"
    by (cases "processRead parse decode (turn_id t) (turn_ts t) val (s, turn_locals t)")
  have "run parse decode (map (ReadValue 0) (val # reads)) \<lparr>ui = s, turns = [t]\<rparr>
      = run parse decode (map (ReadValue 0) reads) \<lparr>ui = s1, turns = [t\<lparr>turn_locals := l1\<rparr>]\<rparr>"
    by (simp add: run_def p)
  also note Cons.IH
  finally show ?case
    by (simp add: readLoop_def p)
qed

lemma run_append: "run parse decode (as @ bs) c = run parse decode bs (run parse decode as c)"
  by (simp add: run_def)

lemma run_no_turn:
  "turns c = [] \<Longrightarrow> run parse decode (map (ReadValue i) reads) c = c"
  by (induction reads) (simp_all add: run_def)

lemma handleSend_run:
  "run parse decode (Submit token clk # script resp) \<lparr>ui = s, turns = []\<rparr>
     = \<lparr>ui = handleSend parse decode token clk resp s, turns = []\<rparr>"
proof (cases "trim (input s) = [] \<or> isThinking s")
  case True
  then have "step parse decode (Submit token clk) \<lparr>ui = s, turns = []\<rparr> = \<lparr>ui = s, turns = []\<rparr>"
    by simp
  moreover have "run parse decode (script resp) \<lparr>ui = s, turns = []\<rparr> = \<lparr>ui = s, turns = []\<rparr>"
    by (cases resp rule: script.cases) (simp_all add: run_append run_no_turn, simp_all add: run_def)
  ultimately show ?thesis
    using True by (auto simp add: run_def handleSend_def)
next
  case False
  let ?t = "\<lparr>turn_id = toString (assistantIdNow clk + 1), turn_ts = assistantTimestamp clk,
              turn_locals = \<lparr>accumulatedContent = [], sources = [], messageAdded = False\<rparr>\<rparr>"
  from False have st: "run parse decode (Submit token clk # script resp) \<lparr>ui = s, turns = []\<rparr>
      = run parse decode (script resp) \<lparr>ui = submit token clk s, turns = [?t]\<rparr>"
    by (simp add: run_def)
  show ?thesis
  proof (cases resp rule: script.cases)
    case (1 err)
    with False show ?thesis
      unfolding st by (simp add: run_def handleSend_def Let_def removeTurn_def)
  next
    case (2 status)
    with False show ?thesis
      unfolding st by (simp add: run_def handleSend_def Let_def removeTurn_def)
  next
    case 3
    with False show ?thesis
      unfolding st by (simp add: run_def handleSend_def Let_def removeTurn_def)
  next
    case (4 reads)
    with False show ?thesis
      unfolding st
      by (simp add: run_append run_reads handleSend_def Let_def split: prod.splits)
         (simp add: run_def removeTurn_def)
  next
    case (5 reads err)
    with False show ?thesis
      unfolding st
      by (simp add: run_append run_reads handleSend_def Let_def split: prod.splits)
         (simp add: run_def removeTurn_def)
  qed
qed






section \<open>Values of the examples\<close>

lemmas example_defs =
  exampleClock_def exampleState_def blankState_def hiMessage_def helloMessage_def
  chunkHello_def chunkWorld_def chunkPartial_def sourcesPdf_def doneEvent_def errorBoom_def

lemmas run_defs =
  handleSend_def submit_def readLoop_def processRead_def processLine_def tryHandleData_def
  handleData_def catchBlock_def finallyBlock_def setMessages_def userMessage_def
  assistantMessage_def startsWith_def trim_def isWhiteSpace_def frame_def nl_def
  decodeAscii_def parseData_def between_def plain_def errMessage_def toString_def Let_def

lemma iso_values:
  "isoString 1700000000000 = ''2023-11-14T22:13:20.000Z''"
  "isoString 1700000000500 = ''2023-11-14T22:13:20.500Z''"
  "isoString 1700000010000 = ''2023-11-14T22:13:30.000Z''"
  "isoParse ''2023-11-14T22:13:20.000Z'' = Some 1700000000000"
  "isoParse ''2023-11-14T22:13:20.500Z'' = Some 1700000000500"
  "isoParse ''2023-11-14T22:13:30.000Z'' = Some 1700000010000"
  "isoParse ''Just now'' = None"
  by code_simp+

text \<open>
  The ends of the range of a Date, the instant before the epoch, leap days, and the years
  next to 0000 and 9999.
\<close>

lemma iso_boundary_values:
  "isoString 8640000000000000 = ''+275760-09-13T00:00:00.000Z''"
  "isoString (- 8640000000000000) = ''-271821-04-20T00:00:00.000Z''"
  "isoString (- 1) = ''1969-12-31T23:59:59.999Z''"
  "isoString 1709164800000 = ''2024-02-29T00:00:00.000Z''"
  "isoString 951782400000 = ''2000-02-29T00:00:00.000Z''"
  "isoString (- 2203891200000) = ''1900-03-01T00:00:00.000Z''"
  "isoString 253402300800000 = ''+010000-01-01T00:00:00.000Z''"
  "isoString (- 62167219200000) = ''0000-01-01T00:00:00.000Z''"
  "isoString (- 62167219200001) = ''-000001-12-31T23:59:59.999Z''"
  "isoParse ''-000000-01-01T00:00:00.000Z'' = None"
  "isoParse ''+275760-09-13T00:00:00.001Z'' = None"
  by code_simp+

lemma example_preconditions:
  "trim (input exampleState) \<noteq> []" "\<not> isThinking exampleState"
  "sessionId exampleState = ''session_a''"
  "list_all (roundTrips isoString isoParse) (messages exampleState)"
  "isoParse (isoString (userTimestamp exampleClock)) = Some (userTimestamp exampleClock)"
  "isoParse (isoString (assistantTimestamp exampleClock)) = Some (assistantTimestamp exampleClock)"
  by (simp_all add: exampleState_def exampleClock_def trim_def isWhiteSpace_def iso_values)

lemma example_events:
  "events parseData [chunkHello, chunkWorld, doneEvent] = [Chunk ''Hello'', Chunk '' world'', Done]"
  "events parseData [chunkPartial] = [Chunk ''Partial'']"
  by (simp_all add: events_def map_filter_simps chunkHello_def chunkWorld_def doneEvent_def
        chunkPartial_def parseData_def between_def plain_def)

lemma example_payloads:
  "list_all (\<lambda>p. nl \<notin> set p) [chunkHello, chunkWorld, doneEvent, chunkPartial]"
  by (simp add: chunkHello_def chunkWorld_def doneEvent_def chunkPartial_def nl_def)

section \<open>The claims\<close>

subsection \<open>C1: the content is the concatenation of the fragments\<close>

text \<open>
  C1, as stated: however the bytes of the \<open>chunk\<close> frames are split across the reads, the
  final content is the concatenation of the fragments. \<open>handleSend\<close> decodes and splits
  each read on its own and keeps nothing between two reads, so the claim fails: here the
  one frame of the fragment \<open>Hello\<close> arrives as \<open>da\<close> and the rest. Neither piece is
  a line that starts with the marker, \<open>JSON.parse\<close> is not even called, and the turn ends
  with the user's message alone.
\<close>

theorem split_frame_counterexample:
  "concat [''da'', ''ta: '' @ chunkHello @ [nl, nl]] = frame chunkHello
   \<and> parseData chunkHello = Some (Chunk ''Hello'')
   \<and> messages (handleSend parseData decodeAscii None exampleClock
         (Body [''da'', ''ta: '' @ chunkHello @ [nl, nl]] EndOfStream) exampleState)
       = [hiMessage]"
  by (simp add: example_defs run_defs)

text \<open>
  C1, amended: when every read decodes to a whole number of frames, each payload on one
  line, and at least one event is a \<open>chunk\<close>, the last message of the turn is the
  assistant's and its content is the concatenation, in order, of the fragments of the
  \<open>chunk\<close> events, however the frames are grouped into reads and whatever other events
  stand between them.
\<close>

theorem whole_frames_content:
  assumes "trim (input s) \<noteq> []" and "\<not> isThinking s"
    and "map decode reads = map (\<lambda>ps. concat (map frame ps)) groups"
    and "\<forall>p\<in>set (concat groups). nl \<notin> set p"
    and "list_ex isChunk (events parse (concat groups))"
  shows "messages (handleSend parse decode token clk (Body reads EndOfStream) s) \<noteq> []
    \<and> msg_role (last (messages (handleSend parse decode token clk (Body reads EndOfStream) s)))
        = Assistant
    \<and> msg_content (last (messages (handleSend parse decode token clk (Body reads EndOfStream) s)))
        = fragments (events parse (concat groups))"
proof -
  from loop_result [OF assms(3,4), of parse "toString (assistantIdNow clk + 1)"
      "assistantTimestamp clk" "submit token clk s"]
  obtain s3 l where
    r: "readLoop parse decode (toString (assistantIdNow clk + 1)) (assistantTimestamp clk) reads
          (submit token clk s, \<lparr>accumulatedContent = [], sources = [], messageAdded = False\<rparr>)
        = (s3, l)"
    and a: "accumulatedContent l = fragments (events parse (concat groups))"
    and b: "messageAdded l = list_ex isChunk (events parse (concat groups))"
    and c: "tracks (toString (assistantIdNow clk + 1)) (s3, l)"
    by blast
  have h: "handleSend parse decode token clk (Body reads EndOfStream) s = finallyBlock s3"
    using assms(1,2) r by (simp add: handleSend_def Let_def)
  from b c assms(5) a show ?thesis
    by (simp add: h tracks_def)
qed

text \<open>
  The scenario of the specification: \<open>Hello\<close> in a first read, \<open> world\<close> and \<open>done\<close>
  in a second one.
\<close>

theorem whole_frames_content_witness:
  "trim (input exampleState) \<noteq> [] \<and> \<not> isThinking exampleState
   \<and> map decodeAscii [frame chunkHello, frame chunkWorld @ frame doneEvent]
       = map (\<lambda>ps. concat (map frame ps)) [[chunkHello], [chunkWorld, doneEvent]]
   \<and> list_ex isChunk (events parseData (concat [[chunkHello], [chunkWorld, doneEvent]]))
   \<and> msg_role (last (messages (handleSend parseData decodeAscii None exampleClock
         (Body [frame chunkHello, frame chunkWorld @ frame doneEvent] EndOfStream) exampleState)))
       = Assistant
   \<and> msg_content (last (messages (handleSend parseData decodeAscii None exampleClock
         (Body [frame chunkHello, frame chunkWorld @ frame doneEvent] EndOfStream) exampleState)))
       = ''Hello world''"
proof -
  note h1 = example_preconditions(1) and h2 = example_preconditions(2)
  have h3: "map decodeAscii [frame chunkHello, frame chunkWorld @ frame doneEvent]
              = map (\<lambda>ps. concat (map frame ps)) [[chunkHello], [chunkWorld, doneEvent]]"
    by (simp add: decodeAscii_def)
  have h4: "\<forall>p\<in>set (concat [[chunkHello], [chunkWorld, doneEvent]]). nl \<notin> set p"
    using example_payloads by simp
  have h5: "list_ex isChunk (events parseData (concat [[chunkHello], [chunkWorld, doneEvent]]))"
    by (simp add: example_events)
  from whole_frames_content [OF h1 h2 h3 h4 h5, of None exampleClock]
  have c: "msg_role (last (messages (handleSend parseData decodeAscii None exampleClock
         (Body [frame chunkHello, frame chunkWorld @ frame doneEvent] EndOfStream) exampleState)))
       = Assistant"
    "msg_content (last (messages (handleSend parseData decodeAscii None exampleClock
         (Body [frame chunkHello, frame chunkWorld @ frame doneEvent] EndOfStream) exampleState)))
       = ''Hello world''"
    by (simp_all add: example_events)
  from h1 h2 h3 h5 c show ?thesis
    by (intro conjI)
qed

subsection \<open>C2: sources that arrive before the first chunk\<close>

text \<open>
  C2 says that a \<open>sources\<close> event that arrives before the first \<open>chunk\<close> is attached to
  the message once the first \<open>chunk\<close> creates it. \<open>handleSend\<close> stores the list in its
  local variable \<open>sources\<close>, but the branch of the first \<open>chunk\<close> builds the message
  without it, and nothing reads the variable later: the message ends without sources.
  The same two events in the other order give the message its sources.
\<close>

theorem sources_before_chunk_dropped:
  "parseData sourcesPdf = Some (Sources [''a.pdf''])
   \<and> msg_content (last (messages (handleSend parseData decodeAscii None exampleClock
         (Body [frame sourcesPdf @ frame chunkHello] EndOfStream) exampleState))) = ''Hello''
   \<and> msg_sources (last (messages (handleSend parseData decodeAscii None exampleClock
         (Body [frame sourcesPdf @ frame chunkHello] EndOfStream) exampleState))) = None
   \<and> msg_sources (last (messages (handleSend parseData decodeAscii None exampleClock
         (Body [frame chunkHello @ frame sourcesPdf] EndOfStream) exampleState)))
       = Some [''a.pdf'']"
  by (simp add: example_defs run_defs)

subsection \<open>C3: the order of the history list\<close>

text \<open>
  C3 says that \<open>getChatHistoryList\<close> is sorted by the time of the last save, latest first.
  The function formats each timestamp before it sorts, and the comparison function parses
  the formatted label: for \<open>Just now\<close> that is NaN, every comparison counts as equal, and
  the list keeps the order of the store. Here \<open>session_a\<close> was saved first and
  \<open>session_b\<close> ten seconds later; twenty seconds after the first save the list still
  has \<open>session_a\<close> first.
\<close>

theorem history_list_unsorted:
  "map (\<lambda>r. (chat_id r, chat_timestamp r)) (map snd (getAllChatHistory twoSessions))
     = [(''session_a'', ''2023-11-14T22:13:20.000Z''), (''session_b'', ''2023-11-14T22:13:30.000Z'')]
   \<and> map (\<lambda>h. (hist_id h, hist_timestamp h))
         (getChatHistoryList isoParse toLocaleDateString 1700000020000 twoSessions)
     = [(''session_a'', ''Just now''), (''session_b'', ''Just now'')]"
  by (simp add: twoSessions_def hiMessage_def exampleClock_def userMessage_def
        saveChatHistory_def setProperty_def getAllChatHistory_def serializeMessage_def
        deriveTitle_def getChatHistoryList_def formatTimestamp_def compareTimestamps_def
        sortCompare_def iso_values)

subsection \<open>C4: a stream that ends without done\<close>

text \<open>
  C4, as stated: after \<open>chunk("Partial")\<close>, when the transport closes without \<open>done\<close> or
  \<open>error\<close>, the message has a failure notice appended. When the reader reports the end
  of the stream, \<open>handleSend\<close> leaves the loop and reaches \<open>finally\<close>: the content is
  \<open>Partial\<close> and nothing more, no error is set, and the turn is over.
\<close>

theorem clean_close_counterexample:
  "parseData chunkPartial = Some (Chunk ''Partial'')
   \<and> msg_content (last (messages (handleSend parseData decodeAscii None exampleClock
         (Body [frame chunkPartial] EndOfStream) exampleState))) = ''Partial''
   \<and> error (handleSend parseData decodeAscii None exampleClock
         (Body [frame chunkPartial] EndOfStream) exampleState) = None
   \<and> \<not> isThinking (handleSend parseData decodeAscii None exampleClock
         (Body [frame chunkPartial] EndOfStream) exampleState)"
  by (simp add: example_defs run_defs)

text \<open>
  C4, amended: when at least one \<open>chunk\<close> has arrived (in whole frames) and the transport
  then fails, that is \<open>reader.read()\<close> rejects, the assistant message keeps the accumulated
  text and gets a blank line and \<open>Error: \<close> with the message of the failure appended; the
  turn is over, and the save effect of the next render stores the session with that
  message, so that \<open>loadSession\<close> returns it. When the reader instead reports the end of
  the stream, the message holds the accumulated text and nothing more; the turn is over
  and the session is stored in the same way. The session is stored under any id but
  \<open>__proto__\<close>, the one key that an assignment does not make a property of the stored
  object. The platform's \<open>toISOString\<close> and its parsing of dates are parameters here,
  taken to give back the timestamps of the messages, as \<open>isoString\<close> and \<open>isoParse\<close>
  do for every Date (\<open>iso_round_trip\<close>).
\<close>

theorem stream_end_without_done:
  assumes "trim (input s) \<noteq> []" and "\<not> isThinking s"
    and "map decode reads = map (\<lambda>ps. concat (map frame ps)) groups"
    and "\<forall>p\<in>set (concat groups). nl \<notin> set p"
    and "list_ex isChunk (events parse (concat groups))"
    and "sessionId s \<noteq> []" and "sessionId s \<noteq> ''__proto__''"
    and "list_all (roundTrips toISOString dateParse) (messages s)"
    and "dateParse (toISOString (userTimestamp clk)) = Some (userTimestamp clk)"
    and "dateParse (toISOString (assistantTimestamp clk)) = Some (assistantTimestamp clk)"
  shows "msg_role (last (messages
            (handleSend parse decode token clk (Body reads (ReadRejected err)) s))) = Assistant
    \<and> msg_content (last (messages
            (handleSend parse decode token clk (Body reads (ReadRejected err)) s)))
        = fragments (events parse (concat groups)) @ [nl, nl] @ ''Error: '' @ errMessage err
    \<and> \<not> isThinking (handleSend parse decode token clk (Body reads (ReadRejected err)) s)
    \<and> (\<exists>stored'.
          saveEffect toISOString now s
            (handleSend parse decode token clk (Body reads (ReadRejected err)) s) stored
            = Inr stored'
          \<and> loadSession dateParse (sessionId s) stored'
            = Inr (Some (messages (handleSend parse decode token clk (Body reads (ReadRejected err)) s))))
    \<and> msg_content (last (messages
            (handleSend parse decode token clk (Body reads EndOfStream) s)))
        = fragments (events parse (concat groups))
    \<and> \<not> isThinking (handleSend parse decode token clk (Body reads EndOfStream) s)
    \<and> (\<exists>stored'.
          saveEffect toISOString now s
            (handleSend parse decode token clk (Body reads EndOfStream) s) stored = Inr stored'
          \<and> loadSession dateParse (sessionId s) stored'
            = Inr (Some (messages (handleSend parse decode token clk (Body reads EndOfStream) s))))"
proof -
  let ?aid = "toString (assistantIdNow clk + 1)"
  let ?ts = "assistantTimestamp clk"
  let ?s2 = "submit token clk s"
  note k2 = kept_submit [OF assms(8,9), of token]
  from loop_result [OF assms(3,4), of parse ?aid ?ts ?s2 dateParse toISOString ?s2]
  obtain s3 l where
    r: "readLoop parse decode ?aid ?ts reads
          (?s2, \<lparr>accumulatedContent = [], sources = [], messageAdded = False\<rparr>) = (s3, l)"
    and a: "accumulatedContent l = fragments (events parse (concat groups))"
    and b: "messageAdded l = list_ex isChunk (events parse (concat groups))"
    and c: "tracks ?aid (s3, l)"
    and d: "dateParse (toISOString ?ts) = Some ?ts \<longrightarrow> kept toISOString dateParse ?s2 ?s2
            \<longrightarrow> kept toISOString dateParse ?s2 s3"
    by blast
  from b assms(5) have added: "messageAdded l" by simp
  from d assms(10) k2(1) have k3: "kept toISOString dateParse ?s2 s3" by simp
  text \<open>The read that rejects.\<close>
  let ?s' = "finallyBlock (catchBlock ?aid ?ts err True s3)"
  have h: "handleSend parse decode token clk (Body reads (ReadRejected err)) s = ?s'"
    using assms(1,2) r added by (simp add: handleSend_def Let_def)
  from k3 have k: "kept toISOString dateParse ?s2 ?s'"
    by (intro kept_finallyBlock kept_catchBlock)
  note cl = catchBlock_last [OF c added, of ?ts err]
  from cl(1) have ne: "messages ?s' \<noteq> []" by simp
  from saveEffect_loadSession [OF k k2(2) k2(3) assms(6,7) ne, of now stored]
  have p: "\<exists>stored'. saveEffect toISOString now s ?s' stored = Inr stored'
            \<and> loadSession dateParse (sessionId s) stored' = Inr (Some (messages ?s'))" .
  have t: "\<not> isThinking ?s'" by (simp add: finallyBlock_def)
  have rejected: "msg_role (last (messages ?s')) = Assistant
    \<and> msg_content (last (messages ?s'))
        = fragments (events parse (concat groups)) @ [nl, nl] @ ''Error: '' @ errMessage err
    \<and> \<not> isThinking ?s'
    \<and> (\<exists>stored'. saveEffect toISOString now s ?s' stored = Inr stored'
           \<and> loadSession dateParse (sessionId s) stored' = Inr (Some (messages ?s')))"
    using cl(2,3) a p t by simp
  text \<open>The regular end of the stream.\<close>
  let ?e = "finallyBlock s3"
  have he: "handleSend parse decode token clk (Body reads EndOfStream) s = ?e"
    using assms(1,2) r by (simp add: handleSend_def Let_def)
  from k3 have ke: "kept toISOString dateParse ?s2 ?e"
    by (rule kept_finallyBlock)
  from c added have nee: "messages ?e \<noteq> []"
    and ce: "msg_content (last (messages ?e)) = accumulatedContent l"
    by (simp_all add: tracks_def)
  from saveEffect_loadSession [OF ke k2(2) k2(3) assms(6,7) nee, of now stored]
  have pe: "\<exists>stored'. saveEffect toISOString now s ?e stored = Inr stored'
            \<and> loadSession dateParse (sessionId s) stored' = Inr (Some (messages ?e))" .
  have te: "\<not> isThinking ?e" by (simp add: finallyBlock_def)
  have ended: "msg_content (last (messages ?e)) = fragments (events parse (concat groups))
    \<and> \<not> isThinking ?e
    \<and> (\<exists>stored'. saveEffect toISOString now s ?e stored = Inr stored'
           \<and> loadSession dateParse (sessionId s) stored' = Inr (Some (messages ?e)))"
    using ce a pe te by simp
  from rejected ended show ?thesis
    unfolding h he by (intro conjI) blast+
qed

theorem stream_end_without_done_witness:
  "trim (input exampleState) \<noteq> [] \<and> \<not> isThinking exampleState
   \<and> list_ex isChunk (events parseData (concat [[chunkPartial]]))
   \<and> sessionId exampleState \<noteq> [] \<and> sessionId exampleState \<noteq> ''__proto__''
   \<and> msg_content (last (messages (handleSend parseData decodeAscii None exampleClock
         (Body [frame chunkPartial] (ReadRejected (ErrorObject ''network error''))) exampleState)))
       = ''Partial'' @ [nl, nl] @ ''Error: network error''
   \<and> (\<exists>stored'.
         saveEffect isoString 1700000001000 exampleState
           (handleSend parseData decodeAscii None exampleClock
              (Body [frame chunkPartial] (ReadRejected (ErrorObject ''network error'')))
              exampleState) None = Inr stored'
         \<and> loadSession isoParse ''session_a'' stored'
           = Inr (Some (messages (handleSend parseData decodeAscii None exampleClock
                (Body [frame chunkPartial] (ReadRejected (ErrorObject ''network error'')))
                exampleState))))"
proof -
  note h1 = example_preconditions(1) and h2 = example_preconditions(2)
    and sid = example_preconditions(3) and h7 = example_preconditions(4)
    and h8 = example_preconditions(5) and h9 = example_preconditions(6)
  have h3: "map decodeAscii [frame chunkPartial] = map (\<lambda>ps. concat (map frame ps)) [[chunkPartial]]"
    by (simp add: decodeAscii_def)
  have h4: "\<forall>p\<in>set (concat [[chunkPartial]]). nl \<notin> set p"
    using example_payloads by simp
  have h5: "list_ex isChunk (events parseData (concat [[chunkPartial]]))"
    by (simp add: example_events)
  have h6: "sessionId exampleState \<noteq> []" "sessionId exampleState \<noteq> ''__proto__''"
    by (simp_all add: sid)
  note w = stream_end_without_done [OF h1 h2 h3 h4 h5 h6 h7 h8 h9,
      of None "ErrorObject ''network error''" 1700000001000 None]
  from w [THEN conjunct2, THEN conjunct1]
  have c: "msg_content (last (messages (handleSend parseData decodeAscii None exampleClock
         (Body [frame chunkPartial] (ReadRejected (ErrorObject ''network error''))) exampleState)))
       = ''Partial'' @ [nl, nl] @ ''Error: network error''"
    by (simp add: example_events errMessage_def)
  from w [THEN conjunct2, THEN conjunct2, THEN conjunct2, THEN conjunct1]
  have p: "\<exists>stored'.
         saveEffect isoString 1700000001000 exampleState
           (handleSend parseData decodeAscii None exampleClock
              (Body [frame chunkPartial] (ReadRejected (ErrorObject ''network error'')))
              exampleState) None = Inr stored'
         \<and> loadSession isoParse ''session_a'' stored'
           = Inr (Some (messages (handleSend parseData decodeAscii None exampleClock
                (Body [frame chunkPartial] (ReadRejected (ErrorObject ''network error'')))
                exampleState)))"
    by (simp add: sid)
  from h1 h2 h5 h6 c p show ?thesis
    by (intro conjI)
qed

subsection \<open>C5: an explicit error event\<close>

text \<open>
  C5 says that an \<open>error\<close> event produces an assistant message that communicates the
  failure, or appends a notice to the partial message, and ends the turn. The branch
  throws, but inside the \<open>try\<close> whose \<open>catch\<close> logs parse errors and goes on with the
  next line, so the outer \<open>catch\<close> that writes these messages never sees it: an \<open>error\<close>
  event alone leaves the user's message with no answer and no error, one after a
  \<open>chunk\<close> leaves the partial text as it is, and the events after it are still applied.
\<close>

theorem error_event_swallowed:
  "parseData errorBoom = Some (ErrorEvent ''boom'')
   \<and> messages (handleSend parseData decodeAscii None exampleClock
         (Body [frame errorBoom] EndOfStream) exampleState) = [hiMessage]
   \<and> error (handleSend parseData decodeAscii None exampleClock
         (Body [frame errorBoom] EndOfStream) exampleState) = None
   \<and> msg_content (last (messages (handleSend parseData decodeAscii None exampleClock
         (Body [frame chunkPartial @ frame errorBoom] EndOfStream) exampleState))) = ''Partial''
   \<and> msg_content (last (messages (handleSend parseData decodeAscii None exampleClock
         (Body [frame chunkPartial @ frame errorBoom @ frame chunkWorld] EndOfStream)
         exampleState))) = ''Partial world''"
  by (simp add: example_defs run_defs)

subsection \<open>C6: save, then load\<close>

text \<open>
  C6, as stated: for every session id and every non-empty list of messages, \<open>loadSession\<close>
  after \<open>saveChatHistory\<close> returns the list. Under the id \<open>__proto__\<close> the assignment
  \<open>allHistory[sessionId] = ...\<close> runs the setter of \<open>Object.prototype\<close> and makes no
  property, so the store is written back without the session (here the empty object), and
  \<open>loadSession\<close> reads the prototype, which has no messages, and throws a TypeError. And
  \<open>saveChatHistory\<close> itself throws a RangeError, before it writes, when a timestamp is an
  Invalid Date.
\<close>

theorem proto_id_not_saved:
  "validDate hiMessage
   \<and> saveChatHistory isoString 1700000001000 ''__proto__'' [hiMessage] (None :: string chat_store)
       = Inr (Some [])
   \<and> loadSession isoParse ''__proto__'' (Some [] :: string chat_store) = Inl TypeError
   \<and> saveChatHistory isoString 1700000001000 ''session_a'' [hiMessage\<lparr>msg_timestamp := None\<rparr>]
         (None :: string chat_store)
       = Inl RangeError"
  by (simp add: saveChatHistory_def setProperty_def loadSession_def getProperty_def
        objectPrototypeNames_def getAllChatHistory_def serializeMessage_def validDate_def
        hiMessage_def userMessage_def exampleClock_def)

text \<open>
  C6, amended: for every session id other than \<open>__proto__\<close>, every store and every
  non-empty list of messages whose timestamps are valid Dates, \<open>saveChatHistory\<close> succeeds
  and \<open>loadSession\<close> on the same id then returns the same list of messages: every field of
  every message, the timestamp to the millisecond (the ISO string that \<open>toISOString\<close>
  writes parses back to the same time value, \<open>iso_round_trip\<close>).
\<close>

theorem save_then_load:
  assumes "sid \<noteq> ''__proto__''" and "msgs \<noteq> []" and "\<forall>m\<in>set msgs. validDate m"
  shows "\<exists>stored'. saveChatHistory isoString now sid msgs stored = Inr stored'
                    \<and> loadSession isoParse sid stored' = Inr (Some msgs)"
proof -
  from assms(3) have "\<forall>m\<in>set msgs. roundTrips isoString isoParse m"
    by (simp add: validDate_roundTrips)
  with assms(1,2) show ?thesis
    by (rule saveChatHistory_loadSession)
qed

theorem save_then_load_witness:
  "''session_a'' \<noteq> ''__proto__'' \<and> [hiMessage, helloMessage] \<noteq> []
   \<and> list_all validDate [hiMessage, helloMessage]
   \<and> (\<exists>stored'.
         saveChatHistory isoString 1700000001000 ''session_a'' [hiMessage, helloMessage] twoSessions
           = Inr stored'
         \<and> loadSession isoParse ''session_a'' stored' = Inr (Some [hiMessage, helloMessage]))"
proof -
  have h1: "''session_a'' \<noteq> ''__proto__''"
    by simp
  have h2: "[hiMessage, helloMessage] \<noteq> []"
    by simp
  have h3': "list_all validDate [hiMessage, helloMessage]"
    by (simp add: validDate_def hiMessage_def helloMessage_def userMessage_def
          assistantMessage_def exampleClock_def)
  then have h3: "\<forall>m\<in>set [hiMessage, helloMessage]. validDate m"
    by simp
  from save_then_load [OF h1 h2 h3, of 1700000001000 twoSessions]
  have c: "\<exists>stored'.
         saveChatHistory isoString 1700000001000 ''session_a'' [hiMessage, helloMessage] twoSessions
           = Inr stored'
         \<and> loadSession isoParse ''session_a'' stored' = Inr (Some [hiMessage, helloMessage])" .
  from h1 h2 h3' c show ?thesis
    by (intro conjI)
qed

subsection \<open>C7: saving no messages is deleting\<close>




subsection \<open>C8: a second submit during a turn\<close>




subsection \<open>C9: a write touches one entry\<close>

text \<open>
  C9: for two distinct session ids \<open>i\<close> and \<open>j\<close>, the record stored under \<open>j\<close> is the
  same before and after \<open>deleteSession(i)\<close>, and before and after
  \<open>saveChatHistory(i, messages)\<close>.
\<close>

theorem store_write_frame:
  assumes "i \<noteq> j"
  shows "map_of (getAllChatHistory (deleteSession i stored)) j = map_of (getAllChatHistory stored) j
    \<and> map_of (getAllChatHistory (applyOp toISOString (Save now i msgs) stored)) j
        = map_of (getAllChatHistory stored) j"
  using assms
  by (auto simp: deleteSession_def saveChatHistory_def setProperty_def getAllChatHistory_def
        update_conv' Let_def split: option.splits)

theorem store_write_frame_witness:
  "''session_a'' \<noteq> ''session_b''
   \<and> map_of (getAllChatHistory (deleteSession ''session_a'' twoSessions)) ''session_b''
       = map_of (getAllChatHistory twoSessions) ''session_b''
   \<and> map_of (getAllChatHistory
         (applyOp isoString (Save 1700000020000 ''session_a'' [hiMessage, helloMessage])
            twoSessions)) ''session_b''
       = map_of (getAllChatHistory twoSessions) ''session_b''
   \<and> map_option chat_timestamp (map_of (getAllChatHistory twoSessions) ''session_b'')
       = Some ''2023-11-14T22:13:30.000Z''"
proof -
  have h: "''session_a'' \<noteq> ''session_b''"
    by simp
  note c = store_write_frame [OF h, of twoSessions isoString 1700000020000
      "[hiMessage, helloMessage]"]
  have v: "map_option chat_timestamp (map_of (getAllChatHistory twoSessions) ''session_b'')
       = Some ''2023-11-14T22:13:30.000Z''"
    by (simp add: twoSessions_def hiMessage_def exampleClock_def userMessage_def
          saveChatHistory_def setProperty_def getAllChatHistory_def serializeMessage_def
          iso_values)
  from h c [THEN conjunct1] c [THEN conjunct2] v show ?thesis
    by (intro conjI)
qed

subsection \<open>C10: a blank input\<close>

text \<open>
  C10: when the input is empty or holds white space only, \<open>handleSend\<close> returns at its
  guard: the state is the one before the call (no user message, no stream), and since
  \<open>setMessages\<close> was not called the save effect does not run and the store stays as it is.
\<close>

theorem blank_input_no_change:
  assumes "\<forall>c\<in>set (input s). isWhiteSpace c"
  shows "handleSend parse decode token clk resp s = s
    \<and> saveEffect toISOString now s (handleSend parse decode token clk resp s) stored = Inr stored"
  using trim_whitespace [OF assms] by (simp add: handleSend_def saveEffect_def)

theorem blank_input_no_change_witness:
  "list_all isWhiteSpace (input blankState)
   \<and> handleSend parseData decodeAscii None exampleClock (Body [frame chunkHello] EndOfStream)
       blankState = blankState
   \<and> saveEffect isoString 1700000001000 blankState
       (handleSend parseData decodeAscii None exampleClock (Body [frame chunkHello] EndOfStream)
          blankState) twoSessions = Inr twoSessions"
proof -
  have h': "list_all isWhiteSpace (input blankState)"
    by (simp add: blankState_def exampleState_def isWhiteSpace_def nl_def)
  then have h: "\<forall>c\<in>set (input blankState). isWhiteSpace c"
    by (simp add: list_all_iff)
  note c = blank_input_no_change [OF h, of parseData decodeAscii None exampleClock
      "Body [frame chunkHello] EndOfStream" isoString 1700000001000 twoSessions]
  from h' c [THEN conjunct1] c [THEN conjunct2] show ?thesis
    by (intro conjI)
qed

end
